theory Spec2Isabelle
  imports Complex_Main "HOL-Library.Multiset"
begin

section \<open>Python values and exceptions\<close>

text \<open>
  The sources are Python 2 (\<^verbatim>\<open>iteritems\<close>, integer \<^verbatim>\<open>/\<close>). Exceptions that the
  modelled code can raise are values of \<open>py_error\<close>; a function that can raise returns
  \<open>py_error + 'a\<close>, or a state together with \<open>py_error option\<close> when the mutations made
  before the exception stay visible.
\<close>

datatype py_error =
    IndexError
  | ValueError
  | TypeError
  | NameError string
  | AttributeError string

text \<open>\<^verbatim>\<open>xs[i]\<close> on a list or tuple: a negative index counts from the end.\<close>

definition py_index :: "'a list \<Rightarrow> int \<Rightarrow> py_error + 'a" where
  "py_index xs i =
     (if 0 \<le> i \<and> i < int (length xs) then Inr (xs ! nat i)
      else if i < 0 \<and> - int (length xs) \<le> i then Inr (xs ! nat (int (length xs) + i))
      else Inl IndexError)"

text \<open>\<^verbatim>\<open>xs.index(x)\<close>: the first position of \<open>x\<close>, ValueError when it is absent.\<close>

fun list_index :: "'a list \<Rightarrow> 'a \<Rightarrow> py_error + int" where
  "list_index [] x = Inl ValueError"
| "list_index (y # ys) x =
     (if y = x then Inr 0
      else (case list_index ys x of Inl e \<Rightarrow> Inl e | Inr i \<Rightarrow> Inr (i + 1)))"

text \<open>\<^verbatim>\<open>str.lower()\<close> on a byte string: the ASCII capitals are mapped, nothing else.\<close>

definition lower_char :: "char \<Rightarrow> char" where
  "lower_char c =
     (case map_of (zip ''ABCDEFGHIJKLMNOPQRSTUVWXYZ'' ''abcdefghijklmnopqrstuvwxyz'') c of
        None \<Rightarrow> c
      | Some l \<Rightarrow> l)"

definition lower :: "string \<Rightarrow> string" where
  "lower s = map lower_char s"

text \<open>The decimal text of an integer, as \<^verbatim>\<open>"{0}".format(n)\<close> prints it.\<close>

function str_nat :: "nat \<Rightarrow> string" where
  "str_nat n =
     (if n < 10 then [''0123456789'' ! n]
      else str_nat (n div 10) @ [''0123456789'' ! (n mod 10)])"
  by pat_completeness auto
termination
  by (relation "measure (\<lambda>n. n)") auto

definition str_int :: "int \<Rightarrow> string" where
  "str_int i = (if i < 0 then ''-'' @ str_nat (nat (- i)) else str_nat (nat i))"


section \<open>Python floats and values\<close>

text \<open>
  A Python float is taken as a real number or NaN: rounding and the infinities are left
  out, NaN is kept because it compares unequal to itself. Arithmetic with a NaN operand
  gives NaN.
\<close>

datatype pyfloat = Num real | NaN

instantiation pyfloat :: "{zero, one, plus, minus, uminus, times}"
begin

definition zero_pyfloat :: pyfloat where
  "zero_pyfloat = Num 0"

definition one_pyfloat :: pyfloat where
  "one_pyfloat = Num 1"

definition plus_pyfloat :: "pyfloat \<Rightarrow> pyfloat \<Rightarrow> pyfloat" where
  "plus_pyfloat a b = (case (a, b) of (Num x, Num y) \<Rightarrow> Num (x + y) | _ \<Rightarrow> NaN)"

definition minus_pyfloat :: "pyfloat \<Rightarrow> pyfloat \<Rightarrow> pyfloat" where
  "minus_pyfloat a b = (case (a, b) of (Num x, Num y) \<Rightarrow> Num (x - y) | _ \<Rightarrow> NaN)"

definition uminus_pyfloat :: "pyfloat \<Rightarrow> pyfloat" where
  "uminus_pyfloat a = (case a of Num x \<Rightarrow> Num (- x) | NaN \<Rightarrow> NaN)"

definition times_pyfloat :: "pyfloat \<Rightarrow> pyfloat \<Rightarrow> pyfloat" where
  "times_pyfloat a b = (case (a, b) of (Num x, Num y) \<Rightarrow> Num (x * y) | _ \<Rightarrow> NaN)"

instance ..

end

instance pyfloat :: numeral
  by standard (auto simp: plus_pyfloat_def split: pyfloat.splits)

text \<open>\<^verbatim>\<open>math.radians\<close>, \<^verbatim>\<open>math.cos\<close> and \<^verbatim>\<open>math.sin\<close>.\<close>

definition radians :: "pyfloat \<Rightarrow> pyfloat" where
  "radians a = (case a of Num x \<Rightarrow> Num (x * pi / 180) | NaN \<Rightarrow> NaN)"

definition py_cos :: "pyfloat \<Rightarrow> pyfloat" where
  "py_cos a = (case a of Num x \<Rightarrow> Num (cos x) | NaN \<Rightarrow> NaN)"

definition py_sin :: "pyfloat \<Rightarrow> pyfloat" where
  "py_sin a = (case a of Num x \<Rightarrow> Num (sin x) | NaN \<Rightarrow> NaN)"

text \<open>
  The values that the attributes of the status record take: None, bools, ints, floats,
  strings and tuples of values.
\<close>

datatype pyval =
    PyNone
  | PyBool bool
  | PyInt int
  | PyFloat pyfloat
  | PyStr string
  | PyTuple "pyval list"

text \<open>A bool, an int or a float as a number (a bool is the int 0 or 1).\<close>

fun number_of :: "pyval \<Rightarrow> pyfloat option" where
  "number_of (PyBool b) = Some (Num (if b then 1 else 0))"
| "number_of (PyInt i) = Some (Num (of_int i))"
| "number_of (PyFloat f) = Some f"
| "number_of PyNone = None"
| "number_of (PyStr s) = None"
| "number_of (PyTuple xs) = None"

text \<open>
  \<^verbatim>\<open>a == b\<close> on two values that are different objects, as the value kept from an
  earlier cycle and the value read in this one are: numbers are compared by their value
  across bool, int and float, NaN is equal to nothing, tuples are compared item by item.
  \<^verbatim>\<open>a != b\<close> is its negation.
\<close>

fun py_eq :: "pyval \<Rightarrow> pyval \<Rightarrow> bool"
  and py_eq_items :: "pyval list \<Rightarrow> pyval list \<Rightarrow> bool" where
  "py_eq PyNone b = (b = PyNone)"
| "py_eq (PyStr s) b = (b = PyStr s)"
| "py_eq (PyTuple xs) b = (case b of PyTuple ys \<Rightarrow> py_eq_items xs ys | _ \<Rightarrow> False)"
| "py_eq (PyBool x) b =
     (case number_of b of Some (Num r) \<Rightarrow> r = (if x then 1 else 0) | _ \<Rightarrow> False)"
| "py_eq (PyInt i) b =
     (case number_of b of Some (Num r) \<Rightarrow> r = of_int i | _ \<Rightarrow> False)"
| "py_eq (PyFloat f) b =
     (case f of
        NaN \<Rightarrow> False
      | Num x \<Rightarrow> (case number_of b of Some (Num r) \<Rightarrow> r = x | _ \<Rightarrow> False))"
| "py_eq_items [] ys = (ys = [])"
| "py_eq_items (x # xs) ys =
     (case ys of [] \<Rightarrow> False | y # ys' \<Rightarrow> py_eq x y \<and> py_eq_items xs ys')"

definition py_ne :: "pyval \<Rightarrow> pyval \<Rightarrow> bool" where
  "py_ne a b = (\<not> py_eq a b)"

text \<open>A value that holds no NaN, at any depth.\<close>

fun nan_free :: "pyval \<Rightarrow> bool"
  and nan_free_items :: "pyval list \<Rightarrow> bool" where
  "nan_free (PyFloat f) = (f \<noteq> NaN)"
| "nan_free (PyTuple xs) = nan_free_items xs"
| "nan_free PyNone = True"
| "nan_free (PyBool b) = True"
| "nan_free (PyInt i) = True"
| "nan_free (PyStr s) = True"
| "nan_free_items [] = True"
| "nan_free_items (x # xs) = (nan_free x \<and> nan_free_items xs)"

text \<open>A tuple of numbers as a list of floats, a tuple of ints as a list of ints.\<close>

fun numbers_of :: "pyval list \<Rightarrow> pyfloat list option" where
  "numbers_of [] = Some []"
| "numbers_of (x # xs) =
     (case number_of x of
        None \<Rightarrow> None
      | Some f \<Rightarrow> (case numbers_of xs of None \<Rightarrow> None | Some fs \<Rightarrow> Some (f # fs)))"

definition floats_of :: "pyval \<Rightarrow> pyfloat list option" where
  "floats_of v = (case v of PyTuple xs \<Rightarrow> numbers_of xs | _ \<Rightarrow> None)"

fun ints_of_items :: "pyval list \<Rightarrow> int list option" where
  "ints_of_items [] = Some []"
| "ints_of_items (x # xs) =
     (case x of
        PyInt i \<Rightarrow> (case ints_of_items xs of None \<Rightarrow> None | Some is \<Rightarrow> Some (i # is))
      | _ \<Rightarrow> None)"

definition ints_of :: "pyval \<Rightarrow> int list option" where
  "ints_of v = (case v of PyTuple xs \<Rightarrow> ints_of_items xs | _ \<Rightarrow> None)"


section \<open>actions/machine\_actions.py: axis letters and numbers\<close>

text \<open>The argument of both helpers is an int or a str.\<close>

datatype axis_arg = AxisInt int | AxisStr string

definition axis_letters :: "string list" where
  "axis_letters = [''x'', ''y'', ''z'', ''a'', ''b'', ''c'', ''u'', ''v'', ''w'', ''all'']"

definition getAxisLetter :: "axis_arg \<Rightarrow> py_error + string" where
  "getAxisLetter axis =
     (case axis of
        AxisInt n \<Rightarrow> py_index axis_letters n
      | AxisStr s \<Rightarrow> Inr (lower s))"

definition getAxisNumber :: "axis_arg \<Rightarrow> py_error + int" where
  "getAxisNumber axis =
     (case axis of
        AxisStr s \<Rightarrow> list_index axis_letters (lower s)
      | AxisInt n \<Rightarrow> Inr n)"


section \<open>utilities/status.py: formatted G-codes\<close>

text \<open>
  \<^verbatim>\<open>updateFormatedGcodes\<close>: the loop over \<^verbatim>\<open>sorted(gcodes[1:])\<close>, with the list
  \<^verbatim>\<open>formated_gcodes\<close> it appends to. On Python 2 ints \<^verbatim>\<open>/\<close> is floor division and
  \<^verbatim>\<open>%\<close> takes the sign of the divisor, as \<open>div\<close> and \<open>mod\<close> on \<open>int\<close> do. The value is
  the tuple emitted on the \<^verbatim>\<open>formated_gcodes\<close> signal.
\<close>

fun gcodes_loop :: "int list \<Rightarrow> string list \<Rightarrow> string list" where
  "gcodes_loop [] formated_gcodes = formated_gcodes"
| "gcodes_loop (gcode # rest) formated_gcodes =
     (if gcode = - 1 then gcodes_loop rest formated_gcodes
      else if gcode mod 10 = 0 then
        gcodes_loop rest (formated_gcodes @ [''G'' @ str_int (gcode div 10)])
      else
        gcodes_loop rest
          (formated_gcodes @ [''G'' @ str_int (gcode div 10) @ ''.'' @ str_int (gcode mod 10)]))"

definition updateFormatedGcodes :: "int list \<Rightarrow> string list" where
  "updateFormatedGcodes gcodes = gcodes_loop (sort (drop 1 gcodes)) []"

text \<open>
  The specification's wording, to compare the loop with: a code is rendered from its whole
  and tenths parts, and the output lists the codes other than the sentinel, first slot
  left out, in ascending order.
\<close>

definition render_gcode :: "int \<Rightarrow> string" where
  "render_gcode code =
     (if 10 dvd code then ''G'' @ str_int (code div 10)
      else ''G'' @ str_int (code div 10) @ ''.'' @ str_int (code mod 10))"

definition formatted_gcodes_spec :: "int list \<Rightarrow> string list" where
  "formatted_gcodes_spec raw = map render_gcode (sort (filter (\<lambda>c. c \<noteq> - 1) (drop 1 raw)))"

text \<open>
  \<^verbatim>\<open>updateFormatedMcodes\<close>: the same loop over \<^verbatim>\<open>sorted(mcodes[1:])\<close>, each code
  printed whole after \<open>M\<close>.
\<close>

fun mcodes_loop :: "int list \<Rightarrow> string list \<Rightarrow> string list" where
  "mcodes_loop [] formated_mcodes = formated_mcodes"
| "mcodes_loop (mcode # rest) formated_mcodes =
     (if mcode = - 1 then mcodes_loop rest formated_mcodes
      else mcodes_loop rest (formated_mcodes @ [''M'' @ str_int mcode]))"

definition updateFormatedMcodes :: "int list \<Rightarrow> string list" where
  "updateFormatedMcodes mcodes = mcodes_loop (sort (drop 1 mcodes)) []"


section \<open>utilities/status.py: the error channel\<close>

text \<open>
  The six message classes are constants of the \<^verbatim>\<open>linuxcnc\<close> extension module, which is
  not part of the sources: they are taken as a parameter.
\<close>

record linuxcnc_consts =
  NML_ERROR :: int
  OPERATOR_ERROR :: int
  NML_TEXT :: int
  OPERATOR_TEXT :: int
  NML_DISPLAY :: int
  OPERATOR_DISPLAY :: int

text \<open>
  Every signal emission of the three classes is an event of one trace: a signal of
  \<^verbatim>\<open>_Status\<close> that a field of the status record is emitted on, with its value; a
  signal of \<^verbatim>\<open>_Status\<close> that one of its slots emits (\<open>Derived\<close>); a signal of
  \<^verbatim>\<open>_Joint\<close> with the joint number and the value; and the two signals of
  \<^verbatim>\<open>_Error\<close>. Calls of the logger are recorded apart.
\<close>

datatype 'v event =
    Signal string 'v
  | Derived string 'v
  | JointSignal string nat 'v
  | New_error string
  | New_message string

datatype log_entry = LogWarning string | LogError string | LogInfo string

text \<open>The text that an event of the error channel carries.\<close>

fun event_text :: "'v event \<Rightarrow> string option" where
  "event_text (New_error m) = Some m"
| "event_text (New_message m) = Some m"
| "event_text (Signal name v) = None"
| "event_text (Derived name v) = None"
| "event_text (JointSignal name jnum v) = None"

text \<open>
  \<^verbatim>\<open>_Error._periodic\<close>. The channel is the queue behind \<^verbatim>\<open>linuxcnc.error_channel()\<close>:
  \<^verbatim>\<open>poll()\<close> gives None on an empty queue and otherwise takes one entry \<open>(kind, msg)\<close>
  off it; a missing text is \<open>None\<close>. The result is the queue left, the events emitted and
  the log calls made. \<open>replace_empty\<close> is the test \<^verbatim>\<open>msg == "" or msg is None\<close> with its
  assignment.
\<close>

definition replace_empty :: "string option \<Rightarrow> string" where
  "replace_empty msg =
     (case msg of
        None \<Rightarrow> ''Unknown error!''
      | Some t \<Rightarrow> if t = [] then ''Unknown error!'' else t)"

definition Error_periodic ::
  "linuxcnc_consts \<Rightarrow> (int \<times> string option) list
     \<Rightarrow> (int \<times> string option) list \<times> 'v event list \<times> log_entry list" where
  "Error_periodic lc channel =
     (case channel of
        [] \<Rightarrow> ([], [], [])
      | (kind, polled_msg) # pending \<Rightarrow>
          (let msg = replace_empty polled_msg
           in if kind \<in> set [NML_ERROR lc, OPERATOR_ERROR lc] then
                (pending, [New_error msg], [LogError msg])
              else if kind \<in> set [NML_TEXT lc, OPERATOR_TEXT lc,
                                    NML_DISPLAY lc, OPERATOR_DISPLAY lc] then
                (pending, [New_message msg], [LogInfo msg])
              else
                (pending, [], [LogError msg])))"


section \<open>utilities/status.py: per-joint status\<close>

text \<open>The signals that the class \<^verbatim>\<open>_Joint\<close> declares.\<close>

definition joint_signals :: "string list" where
  "joint_signals =
     [''jointType'', ''backlash'', ''enabled'', ''fault'', ''ferror_current'',
      ''ferror_highmark'', ''homed'', ''homing'', ''inpos'', ''input'', ''max_ferror'',
      ''max_hard_limit'', ''max_soft_limit'', ''min_hard_limit'', ''min_soft_limit'',
      ''output'', ''override_limits'', ''velocity'']"

text \<open>
  A joint's status is a dict, here the list of its items (keys distinct); \<^verbatim>\<open>stat.joint\<close>
  is a tuple of them. \<^verbatim>\<open>_Joint\<close> keeps the joint count read at construction and the
  tuple of the previous cycle.
\<close>

record 'v Joint =
  num_joints :: int
  joint_old :: "(string \<times> 'v) list list"

text \<open>Two dicts are equal when they hold the same items.\<close>

definition dict_eq :: "(string \<times> 'v) list \<Rightarrow> (string \<times> 'v) list \<Rightarrow> bool" where
  "dict_eq a b = (list_all (\<lambda>item. item \<in> set b) a \<and> list_all (\<lambda>item. item \<in> set a) b)"

text \<open>
  The inner loop over \<^verbatim>\<open>changed_items\<close>: \<^verbatim>\<open>getattr(self, item[0])\<close> raises
  AttributeError for a name that is no signal of the class, and the events emitted before
  it stay emitted.
\<close>

fun joint_emit :: "nat \<Rightarrow> (string \<times> 'v) list \<Rightarrow> 'v event list \<times> py_error option" where
  "joint_emit jnum [] = ([], None)"
| "joint_emit jnum (item # rest) =
     (if fst item \<in> set joint_signals then
        (case joint_emit jnum rest of
           (evs, exc) \<Rightarrow> (JointSignal (fst item) jnum (snd item) # evs, exc))
      else ([], Some (AttributeError (fst item))))"

text \<open>
  The loop over \<^verbatim>\<open>range(self.num_joints)\<close>. \<^verbatim>\<open>new[jnum]\<close> is read before
  \<^verbatim>\<open>old[jnum]\<close>, and each raises IndexError past the end of its tuple. The changed items
  are those of \<^verbatim>\<open>set(new[jnum].items()) - set(old[jnum].items())\<close>; the order in which a
  Python set is iterated is not specified, the model takes the order of the new dict.
\<close>

fun joint_loop ::
  "(string \<times> 'v) list list \<Rightarrow> (string \<times> 'v) list list \<Rightarrow> nat list
     \<Rightarrow> 'v event list \<times> py_error option" where
  "joint_loop new old_t [] = ([], None)"
| "joint_loop new old_t (jnum # rest) =
     (if length new \<le> jnum then ([], Some IndexError)
      else if length old_t \<le> jnum then ([], Some IndexError)
      else if \<not> dict_eq (new ! jnum) (old_t ! jnum) then
        (case joint_emit jnum (filter (\<lambda>item. item \<notin> set (old_t ! jnum)) (new ! jnum)) of
           (evs, Some e) \<Rightarrow> (evs, Some e)
         | (evs, None) \<Rightarrow>
             (case joint_loop new old_t rest of (evs', exc) \<Rightarrow> (evs @ evs', exc)))
      else joint_loop new old_t rest)"

text \<open>
  \<^verbatim>\<open>_Joint._periodic\<close>, given \<^verbatim>\<open>self.stat.joint\<close>: the baseline is replaced before the
  loop runs.
\<close>

definition Joint_periodic ::
  "(string \<times> 'v) list list \<Rightarrow> 'v Joint \<Rightarrow> 'v Joint \<times> 'v event list \<times> py_error option" where
  "Joint_periodic new self =
     (self\<lparr>joint_old := new\<rparr>,
      joint_loop new (joint_old self) [0 ..< nat (num_joints self)])"


section \<open>utilities/status.py: axis positions\<close>

text \<open>\<^verbatim>\<open>xs[i] = v\<close> on a list: IndexError outside the list, as for a read.\<close>

definition py_setitem :: "'a list \<Rightarrow> int \<Rightarrow> 'a \<Rightarrow> py_error + 'a list" where
  "py_setitem xs i v =
     (if 0 \<le> i \<and> i < int (length xs) then Inr (xs[nat i := v])
      else if i < 0 \<and> - int (length xs) \<le> i then Inr (xs[nat (int (length xs) + i) := v])
      else Inl IndexError)"

text \<open>
  The names that the module \<^verbatim>\<open>status.py\<close> binds at its top level: its imports, the
  objects it creates and its classes. Reading any other global name that is no builtin
  raises NameError.
\<close>

definition status_module_globals :: "string list" where
  "status_module_globals =
     [''QDialog'', ''QLabel'', ''QHBoxLayout'', ''QWidget'',
      ''QObject'', ''pyqtSignal'', ''pyqtBoundSignal'', ''pyqtSlot'', ''QTimer'', ''QThread'',
      ''os'', ''time'', ''linuxcnc'',
      ''Info'', ''Prefs'', ''INFO'', ''PREFS'',
      ''logger'', ''log'',
      ''Status'', ''_Status'', ''_Joint'', ''_Error'']"

definition load_global :: "string \<Rightarrow> py_error + unit" where
  "load_global name =
     (if name \<in> set status_module_globals then Inr () else Inl (NameError name))"

text \<open>
  The fields of the status record that \<^verbatim>\<open>updateAxisPositions\<close> reads, as tuples of
  floats.
\<close>

record pos_stat =
  position :: "pyfloat list"
  actual_position :: "pyfloat list"
  dtg :: "pyfloat list"
  g5x_offset :: "pyfloat list"
  g92_offset :: "pyfloat list"
  tool_offset :: "pyfloat list"
  rotation_xy :: pyfloat

text \<open>
  The first loop over \<^verbatim>\<open>INFO.AXIS_NUMBER_LIST\<close>:
  \<^verbatim>\<open>rel[axis] = pos[axis] - g5x_offset[axis] - tool_offset[axis]\<close>.
\<close>

fun offsets_loop ::
  "pyfloat list \<Rightarrow> pyfloat list \<Rightarrow> pyfloat list \<Rightarrow> int list \<Rightarrow> pyfloat list
     \<Rightarrow> py_error + pyfloat list" where
  "offsets_loop pos g5x tool [] rel = Inr rel"
| "offsets_loop pos g5x tool (axis # rest) rel =
     (case py_index pos axis of
        Inl e \<Rightarrow> Inl e
      | Inr p \<Rightarrow>
          (case py_index g5x axis of
             Inl e \<Rightarrow> Inl e
           | Inr g \<Rightarrow>
               (case py_index tool axis of
                  Inl e \<Rightarrow> Inl e
                | Inr t \<Rightarrow>
                    (case py_setitem rel axis (p - g - t) of
                       Inl e \<Rightarrow> Inl e
                     | Inr rel' \<Rightarrow> offsets_loop pos g5x tool rest rel'))))"

text \<open>The second loop: \<^verbatim>\<open>rel[axis] -= g92_offset[axis]\<close>.\<close>

fun g92_loop :: "pyfloat list \<Rightarrow> int list \<Rightarrow> pyfloat list \<Rightarrow> py_error + pyfloat list" where
  "g92_loop g92 [] rel = Inr rel"
| "g92_loop g92 (axis # rest) rel =
     (case py_index rel axis of
        Inl e \<Rightarrow> Inl e
      | Inr r \<Rightarrow>
          (case py_index g92 axis of
             Inl e \<Rightarrow> Inl e
           | Inr g \<Rightarrow>
               (case py_setitem rel axis (r - g) of
                  Inl e \<Rightarrow> Inl e
                | Inr rel' \<Rightarrow> g92_loop g92 rest rel')))"

text \<open>
  The rotation branch reads the global names \<^verbatim>\<open>math\<close> and then \<^verbatim>\<open>stat\<close>
  (\<^verbatim>\<open>math.radians(-stat.rotation_xy)\<close>) before it computes anything; what follows is
  the computation the branch spells out, with \<^verbatim>\<open>stat\<close> read as the status record.
\<close>

definition rotate_xy :: "pos_stat \<Rightarrow> pyfloat list \<Rightarrow> py_error + pyfloat list" where
  "rotate_xy st rel =
     (case load_global ''math'' of
        Inl e \<Rightarrow> Inl e
      | Inr _ \<Rightarrow>
          (case load_global ''stat'' of
             Inl e \<Rightarrow> Inl e
           | Inr _ \<Rightarrow>
               (let t = radians (- rotation_xy st) in
                case py_index rel 0 of
                  Inl e \<Rightarrow> Inl e
                | Inr r0 \<Rightarrow>
                    (case py_index rel 1 of
                       Inl e \<Rightarrow> Inl e
                     | Inr r1 \<Rightarrow>
                         (let xr = r0 * py_cos t - r1 * py_sin t;
                              yr = r0 * py_sin t + r1 * py_cos t
                          in Inr (rel[0 := xr, 1 := yr]))))))"

text \<open>
  \<^verbatim>\<open>_Status.updateAxisPositions\<close>, given \<^verbatim>\<open>INFO.AXIS_NUMBER_LIST\<close> (the module
  \<^verbatim>\<open>info\<close> is not part of the sources), the mode flag, the status record and the
  argument \<^verbatim>\<open>pos\<close>. The value is the triple emitted on \<^verbatim>\<open>axis_positions\<close>.
\<close>

definition updateAxisPositions ::
  "int list \<Rightarrow> bool \<Rightarrow> pos_stat \<Rightarrow> pyfloat list option
     \<Rightarrow> py_error + pyfloat list \<times> pyfloat list \<times> pyfloat list" where
  "updateAxisPositions AXIS_NUMBER_LIST report_actual st pos_arg =
     (let pos = (case pos_arg of
                   None \<Rightarrow> if report_actual then actual_position st else position st
                 | Some p \<Rightarrow> p)
      in case offsets_loop pos (g5x_offset st) (tool_offset st) AXIS_NUMBER_LIST
                (replicate 9 0) of
           Inl e \<Rightarrow> Inl e
         | Inr rel \<Rightarrow>
             (case (if rotation_xy st \<noteq> 0 then rotate_xy st rel else Inr rel) of
                Inl e \<Rightarrow> Inl e
              | Inr rel1 \<Rightarrow>
                  (case g92_loop (g92_offset st) AXIS_NUMBER_LIST rel1 of
                     Inl e \<Rightarrow> Inl e
                   | Inr rel2 \<Rightarrow> Inr (pos, rel2, dtg st))))"


section \<open>utilities/status.py: the status object\<close>

text \<open>The signals that the class \<^verbatim>\<open>_Status\<close> declares, in the order of the source.\<close>

definition status_signals :: "string list" where
  "status_signals =
     [''active_queue'', ''queue'', ''queue_full'', ''queued_mdi_commands'',
      ''position'', ''actual_position'', ''joint_position'', ''joint_actual_position'',
      ''dtg'', ''distance_to_go'',
      ''current_vel'', ''velocity'',
      ''g5x_index'', ''g5x_offset'', ''g92_offset'', ''tool_offset'', ''rotation_xy'',
      ''ain'', ''aout'', ''din'', ''dout'',
      ''mist'', ''flood'',
      ''mcodes'', ''gcodes'',
      ''homed'', ''inpos'', ''limit'',
      ''delay_left'', ''input_timeout'',
      ''lube'', ''lube_level'',
      ''optional_stop'', ''block_delete'', ''paused'', ''feed_hold_enabled'',
      ''probe_tripped'', ''probe_val'', ''probed_position'', ''probing'',
      ''file'', ''program_units'', ''motion_line'', ''current_line'', ''read_line'',
      ''call_level'',
      ''spindle_brake'', ''spindle_direction'', ''spindle_enabled'',
      ''spindle_override_enabled'', ''spindle_speed'', ''spindle_increasing'',
      ''feedrate'', ''rapidrate'', ''spindlerate'', ''feed_override_enabled'',
      ''adaptive_feed_enabled'',
      ''enabled'', ''estop'', ''state'', ''exec_state'', ''task_mode'', ''task_paused'',
      ''task_state'', ''motion_mode'', ''motion_type'', ''interp_state'',
      ''interpreter_errcode'',
      ''tool_in_spindle'', ''pocket_prepped'', ''tool_table'',
      ''axis_positions'', ''joint_positions'', ''formated_gcodes'', ''formated_mcodes'',
      ''file_loaded'',
      ''backplot_line_selected'', ''backplot_gcode_error'', ''reload_backplot'',
      ''recent_files_changed'',
      ''on_shutown'']"

definition excluded_items :: "string list" where
  "excluded_items =
     [''axes'', ''axis'', ''joint'', ''cycle_time'', ''linear_units'',
      ''angular_units'', ''acceleration'', ''max_velocity'', ''kinematics_type'',
      ''joints'', ''settings'', ''axis_mask'', ''max_acceleration'', ''echo_serial_number'',
      ''id'', ''poll'', ''command'', ''debug'']"

text \<open>
  What the module takes from outside the sources: the message classes and the idle state
  of the interpreter, constants of the \<^verbatim>\<open>linuxcnc\<close> extension module, and the list of
  axis numbers of the \<^verbatim>\<open>INFO\<close> object.
\<close>

record module_env =
  linuxcnc :: linuxcnc_consts
  INTERP_IDLE :: int
  AXIS_NUMBER_LIST :: "int list"

text \<open>
  The status record \<^verbatim>\<open>linuxcnc.stat\<close> is an object of the extension module: what the
  code reads of it is \<^verbatim>\<open>dir(stat)\<close>, \<^verbatim>\<open>getattr(stat, name)\<close>, \<^verbatim>\<open>stat.joints\<close> and
  \<^verbatim>\<open>stat.joint\<close>. A call of \<^verbatim>\<open>stat.poll()\<close> either raises or refreshes the record.
\<close>

record 'v stat =
  stat_dir :: "string list"
  stat_attr :: "string \<Rightarrow> 'v"
  stat_joints :: int
  stat_joint :: "(string \<times> 'v) list list"

datatype 'v poll = PollRaises | PollOk "'v stat"

text \<open>
  The state of the \<^verbatim>\<open>_Status\<close> object. \<^verbatim>\<open>stat\<close> is the status record as the last
  successful poll left it. The dict \<^verbatim>\<open>old\<close> is the list of its items in the order
  \<^verbatim>\<open>iteritems()\<close> visits them (keys distinct; assigning to a key that is present keeps
  the order). \<^verbatim>\<open>connections\<close> holds the signal-to-slot connections that the class
  makes, as pairs of names in the order they were made, \<^verbatim>\<open>timer_active\<close> says whether
  the class timer runs, and \<^verbatim>\<open>error_channel\<close> is the queue read by the \<^verbatim>\<open>_Error\<close>
  object.
\<close>

record 'v Status =
  stat :: "'v stat"
  report_actual_position :: bool
  old :: "(string \<times> 'v) list"
  joint :: "'v Joint"
  error_channel :: "(int \<times> string option) list"
  connections :: "(string \<times> string) list"
  cycle_time :: nat
  timer_active :: bool

text \<open>What one call leaves behind: the state, the events and log calls, an exception.\<close>

record 'v outcome =
  state :: "'v Status"
  emitted :: "'v event list"
  logged :: "log_entry list"
  raised :: "py_error option"

text \<open>
  \<^verbatim>\<open>_Status.__init__\<close>: the dict of old values over the attributes of the record that do
  not start with an underscore and are not excluded, the joint and error objects, the
  connections. The timer is started later by \<^verbatim>\<open>startPeriodic\<close>. The preferences and
  the list of recent files are left out.
\<close>

definition monitored :: "string \<Rightarrow> bool" where
  "monitored item = (\<not> (take 1 item = ''_'' \<or> item \<in> set excluded_items))"

definition Status_init :: "'v stat \<Rightarrow> (int \<times> string option) list \<Rightarrow> 'v Status" where
  "Status_init st channel =
     \<lparr>stat = st,
      report_actual_position = False,
      old = map (\<lambda>item. (item, stat_attr st item)) (filter monitored (stat_dir st)),
      joint = \<lparr>num_joints = stat_joints st, joint_old = stat_joint st\<rparr>,
      error_channel = channel,
      connections =
        [(''position'', ''updateAxisPositions''),
         (''g5x_offset'', ''updateAxisPositions''),
         (''g92_offset'', ''updateAxisPositions''),
         (''tool_offset'', ''updateAxisPositions''),
         (''joint_position'', ''updateJointPositions''),
         (''gcodes'', ''updateFormatedGcodes''),
         (''mcodes'', ''updateFormatedMcodes''),
         (''file'', ''updateFileLoaded''),
         (''timer.timeout'', ''_periodic'')],
      cycle_time = 75,
      timer_active = False\<rparr>"

definition startPeriodic :: "'v Status \<Rightarrow> 'v Status" where
  "startPeriodic self = self\<lparr>timer_active := True\<rparr>"

text \<open>
  Connections. \<^verbatim>\<open>connect\<close> adds one connection (a second one of the same pair is one
  more), \<^verbatim>\<open>disconnect\<close> removes one and raises TypeError when there is none.
\<close>

definition connect :: "string \<Rightarrow> string \<Rightarrow> (string \<times> string) list \<Rightarrow> (string \<times> string) list" where
  "connect signal slot conns = conns @ [(signal, slot)]"

definition disconnect ::
  "string \<Rightarrow> string \<Rightarrow> (string \<times> string) list \<Rightarrow> py_error + (string \<times> string) list" where
  "disconnect signal slot conns =
     (if (signal, slot) \<in> set conns then Inr (remove1 (signal, slot) conns)
      else Inl TypeError)"

text \<open>
  \<^verbatim>\<open>_Status.setReportActualPosition\<close>, with a bool argument. The flag is assigned before
  the connections are touched, so an exception of \<^verbatim>\<open>disconnect\<close> leaves it changed.
  Its two branches have one shape, \<open>swap_connections\<close>: two calls of \<^verbatim>\<open>disconnect\<close>, then
  two of \<^verbatim>\<open>connect\<close>.
\<close>

definition swap_connections ::
  "string \<times> string \<Rightarrow> string \<times> string \<Rightarrow> string \<times> string \<Rightarrow> string \<times> string
     \<Rightarrow> 'v Status \<Rightarrow> 'v Status \<times> py_error option" where
  "swap_connections off1 off2 on1 on2 self =
     (case disconnect (fst off1) (snd off1) (connections self) of
        Inl e \<Rightarrow> (self, Some e)
      | Inr c1 \<Rightarrow>
          (case disconnect (fst off2) (snd off2) c1 of
             Inl e \<Rightarrow> (self\<lparr>connections := c1\<rparr>, Some e)
           | Inr c2 \<Rightarrow>
               (self\<lparr>connections := connect (fst on2) (snd on2)
                                       (connect (fst on1) (snd on1) c2)\<rparr>,
                None)))"

definition setReportActualPosition :: "bool \<Rightarrow> 'v Status \<Rightarrow> 'v Status \<times> py_error option" where
  "setReportActualPosition report_actual self =
     (if report_actual \<noteq> report_actual_position self then
        (let self1 = self\<lparr>report_actual_position := report_actual\<rparr> in
         if report_actual_position self1 then
           swap_connections
             (''position'', ''updateAxisPositions'')
             (''joint_position'', ''updateJointPositions'')
             (''actual_position'', ''updateAxisPositions'')
             (''joint_actual_position'', ''updateJointPositions'') self1
         else
           swap_connections
             (''actual_position'', ''updateAxisPositions'')
             (''joint_actual_position'', ''updateJointPositions'')
             (''position'', ''updateAxisPositions'')
             (''joint_position'', ''updateJointPositions'') self1)
      else (self, None))"

text \<open>A sequence of calls of the mode switch; it ends at the first exception.\<close>

fun set_report_calls :: "bool list \<Rightarrow> 'v Status \<Rightarrow> 'v Status \<times> py_error option" where
  "set_report_calls [] self = (self, None)"
| "set_report_calls (report_actual # calls) self =
     (case setReportActualPosition report_actual self of
        (self', Some e) \<Rightarrow> (self', Some e)
      | (self', None) \<Rightarrow> set_report_calls calls self')"

text \<open>
  The mode to which the position triggers are connected: the number of connections of
  each of the four pairs.
\<close>

definition connected :: "'v Status \<Rightarrow> string \<Rightarrow> string \<Rightarrow> nat" where
  "connected self signal slot = count_list (connections self) (signal, slot)"

text \<open>
  The events of the fields of the status record, as against the signals that the slots
  emit, the joints and the errors.
\<close>

fun is_status_signal :: "'v event \<Rightarrow> bool" where
  "is_status_signal (Signal name v) = True"
| "is_status_signal (Derived name v) = False"
| "is_status_signal (JointSignal name jnum v) = False"
| "is_status_signal (New_error m) = False"
| "is_status_signal (New_message m) = False"

text \<open>
  Both position triggers are on the mode that the flag names: one connection each to the
  fields of that mode, none to the fields of the other.
\<close>

definition mode_consistent :: "'v Status \<Rightarrow> bool" where
  "mode_consistent self =
     (if report_actual_position self then
        connected self ''actual_position'' ''updateAxisPositions'' = 1
        \<and> connected self ''joint_actual_position'' ''updateJointPositions'' = 1
        \<and> connected self ''position'' ''updateAxisPositions'' = 0
        \<and> connected self ''joint_position'' ''updateJointPositions'' = 0
      else
        connected self ''position'' ''updateAxisPositions'' = 1
        \<and> connected self ''joint_position'' ''updateJointPositions'' = 1
        \<and> connected self ''actual_position'' ''updateAxisPositions'' = 0
        \<and> connected self ''joint_actual_position'' ''updateJointPositions'' = 0)"

text \<open>
  The slots. Each is called with the value that the signal carries; the record it reads
  is \<^verbatim>\<open>self.stat\<close>. The result of a slot is what it emits on its own signal (an event
  \<open>Derived\<close>) and the exception it raises. The position fields of the record are tuples
  of numbers and its code fields tuples of ints; for a value of another shape, which the
  extension module never hands out, the model raises TypeError. The numbers of a position
  payload are given as floats. The check that \<^verbatim>\<open>emit\<close> makes of its argument against
  the type of the signal is not modelled.
\<close>

definition pos_stat_of :: "(string \<Rightarrow> pyval) \<Rightarrow> pos_stat option" where
  "pos_stat_of attr =
     Option.bind (floats_of (attr ''position'')) (\<lambda>p.
     Option.bind (floats_of (attr ''actual_position'')) (\<lambda>a.
     Option.bind (floats_of (attr ''dtg'')) (\<lambda>d.
     Option.bind (floats_of (attr ''g5x_offset'')) (\<lambda>g5x.
     Option.bind (floats_of (attr ''g92_offset'')) (\<lambda>g92.
     Option.bind (floats_of (attr ''tool_offset'')) (\<lambda>t.
     Option.bind (number_of (attr ''rotation_xy'')) (\<lambda>r.
       Some \<lparr>position = p, actual_position = a, dtg = d, g5x_offset = g5x,
             g92_offset = g92, tool_offset = t, rotation_xy = r\<rparr>)))))))"

text \<open>
  The slot \<^verbatim>\<open>updateAxisPositions\<close> called with \<^verbatim>\<open>pos\<close>, which may be None: it emits
  the tuple of \<^verbatim>\<open>pos\<close>, \<^verbatim>\<open>tuple(rel)\<close> and \<^verbatim>\<open>tuple(dtg)\<close>.
\<close>

definition slot_updateAxisPositions ::
  "module_env \<Rightarrow> pyval Status \<Rightarrow> pyval \<Rightarrow> pyval event list \<times> py_error option" where
  "slot_updateAxisPositions env self pos =
     (case pos_stat_of (stat_attr (stat self)) of
        None \<Rightarrow> ([], Some TypeError)
      | Some st \<Rightarrow>
          (case (if pos = PyNone then Some None else map_option Some (floats_of pos)) of
             None \<Rightarrow> ([], Some TypeError)
           | Some pos_arg \<Rightarrow>
               (case updateAxisPositions (AXIS_NUMBER_LIST env) (report_actual_position self)
                       st pos_arg of
                  Inl e \<Rightarrow> ([], Some e)
                | Inr (p, rel, d) \<Rightarrow>
                    ([Derived ''axis_positions''
                        (PyTuple [PyTuple (map PyFloat p), PyTuple (map PyFloat rel),
                                  PyTuple (map PyFloat d)])],
                     None))))"

text \<open>
  \<^verbatim>\<open>updateJointPositions\<close>: the value emitted on \<^verbatim>\<open>joint_positions\<close> is the argument,
  or the joint positions of the mode when there is none.
\<close>

definition updateJointPositions :: "bool \<Rightarrow> (string \<Rightarrow> pyval) \<Rightarrow> pyval option \<Rightarrow> pyval" where
  "updateJointPositions report_actual attr pos_arg =
     (case pos_arg of
        None \<Rightarrow> if report_actual then attr ''joint_actual_position'' else attr ''joint_position''
      | Some pos \<Rightarrow> pos)"

text \<open>
  \<^verbatim>\<open>updateFileLoaded\<close>: the file is announced when the interpreter is idle and no
  subroutine is being called.
\<close>

definition updateFileLoaded ::
  "module_env \<Rightarrow> (string \<Rightarrow> pyval) \<Rightarrow> pyval \<Rightarrow> pyval event list \<times> py_error option" where
  "updateFileLoaded env attr file =
     (if py_eq (attr ''interp_state'') (PyInt (INTERP_IDLE env))
         \<and> py_eq (attr ''call_level'') (PyInt 0)
      then ([Derived ''file_loaded'' file], None)
      else ([], None))"

definition run_slot ::
  "module_env \<Rightarrow> pyval Status \<Rightarrow> string \<Rightarrow> pyval \<Rightarrow> pyval event list \<times> py_error option" where
  "run_slot env self slot v =
     (if slot = ''updateAxisPositions'' then slot_updateAxisPositions env self v
      else if slot = ''updateJointPositions'' then
        ([Derived ''joint_positions''
            (updateJointPositions (report_actual_position self) (stat_attr (stat self))
               (if v = PyNone then None else Some v))],
         None)
      else if slot = ''updateFormatedGcodes'' then
        (case ints_of v of
           None \<Rightarrow> ([], Some TypeError)
         | Some gcodes \<Rightarrow>
             ([Derived ''formated_gcodes'' (PyTuple (map PyStr (updateFormatedGcodes gcodes)))],
              None))
      else if slot = ''updateFormatedMcodes'' then
        (case ints_of v of
           None \<Rightarrow> ([], Some TypeError)
         | Some mcodes \<Rightarrow>
             ([Derived ''formated_mcodes'' (PyTuple (map PyStr (updateFormatedMcodes mcodes)))],
              None))
      else if slot = ''updateFileLoaded'' then updateFileLoaded env (stat_attr (stat self)) v
      else ([], None))"

text \<open>
  The slots connected to a signal are called inside \<^verbatim>\<open>emit\<close>, in the order of their
  connection. An exception that leaves a slot is handled nowhere in the sources, and PyQt5
  ends the program at it: the call that emitted ends there, with that exception.
\<close>

fun run_slots ::
  "module_env \<Rightarrow> pyval Status \<Rightarrow> string list \<Rightarrow> pyval
     \<Rightarrow> pyval event list \<times> py_error option" where
  "run_slots env self [] v = ([], None)"
| "run_slots env self (slot # rest) v =
     (case run_slot env self slot v of
        (evs, Some e) \<Rightarrow> (evs, Some e)
      | (evs, None) \<Rightarrow>
          (case run_slots env self rest v of (evs', exc) \<Rightarrow> (evs @ evs', exc)))"

text \<open>
  \<^verbatim>\<open>getattr(self, key).emit(value)\<close>: AttributeError when the class declares no signal
  of that name; otherwise the signal is emitted and its slots run.
\<close>

definition emit ::
  "module_env \<Rightarrow> pyval Status \<Rightarrow> string \<Rightarrow> pyval \<Rightarrow> pyval event list \<times> py_error option" where
  "emit env self key v =
     (if key \<in> set status_signals then
        (case run_slots env self
                (map snd (filter (\<lambda>c. fst c = key) (connections self))) v of
           (evs, exc) \<Rightarrow> (Signal key v # evs, exc))
      else ([], Some (AttributeError key)))"

text \<open>
  The loop of \<^verbatim>\<open>_periodic\<close> over \<^verbatim>\<open>self.old.iteritems()\<close>; \<^verbatim>\<open>self.stat\<close> is the record
  just polled. For a changed key the dict is updated first and the signal emitted after,
  and the loop ends at an emission that raises. The result is the dict, the events, the
  exception.
\<close>

fun periodic_loop ::
  "module_env \<Rightarrow> pyval Status \<Rightarrow> (string \<times> pyval) list
     \<Rightarrow> (string \<times> pyval) list \<times> pyval event list \<times> py_error option" where
  "periodic_loop env self [] = ([], [], None)"
| "periodic_loop env self ((key, old_value) # rest) =
     (let new_value = stat_attr (stat self) key in
      if py_ne old_value new_value then
        (case emit env self key new_value of
           (evs, Some e) \<Rightarrow> ((key, new_value) # rest, evs, Some e)
         | (evs, None) \<Rightarrow>
             (case periodic_loop env self rest of
                (old', evs', exc) \<Rightarrow> ((key, new_value) # old', evs @ evs', exc)))
      else
        (case periodic_loop env self rest of
           (old', evs, exc) \<Rightarrow> ((key, old_value) # old', evs, exc)))"

text \<open>
  \<^verbatim>\<open>_Status._periodic\<close>, given what \<^verbatim>\<open>self.stat.poll()\<close> does in this cycle.
\<close>

definition Status_periodic :: "module_env \<Rightarrow> pyval poll \<Rightarrow> pyval Status \<Rightarrow> pyval outcome" where
  "Status_periodic lc polled self =
     (case polled of
        PollRaises \<Rightarrow>
          \<lparr>state = self\<lparr>timer_active := False\<rparr>,
           emitted = [],
           logged = [LogWarning ''Status polling failed, is LinuxCNC running?''],
           raised = None\<rparr>
      | PollOk st \<Rightarrow>
          (case periodic_loop lc (self\<lparr>stat := st\<rparr>) (old self) of
             (old', evs, Some e) \<Rightarrow>
               \<lparr>state = self\<lparr>stat := st, old := old'\<rparr>, emitted = evs, logged = [],
                raised = Some e\<rparr>
           | (old', evs, None) \<Rightarrow>
               (case Joint_periodic (stat_joint st) (joint self) of
                  (joint', jevs, Some e) \<Rightarrow>
                    \<lparr>state = self\<lparr>stat := st, old := old', joint := joint'\<rparr>,
                     emitted = evs @ jevs, logged = [], raised = Some e\<rparr>
                | (joint', jevs, None) \<Rightarrow>
                    (case Error_periodic (linuxcnc lc) (error_channel self) of
                       (channel', eevs, elog) \<Rightarrow>
                         \<lparr>state = self\<lparr>stat := st, old := old', joint := joint',
                                        error_channel := channel'\<rparr>,
                          emitted = evs @ jevs @ eevs, logged = elog, raised = None\<rparr>))))"

text \<open>
  The timer calls \<^verbatim>\<open>_periodic\<close> at each timeout while it is active; a stopped timer
  calls nothing.
\<close>

definition timer_timeout :: "module_env \<Rightarrow> pyval poll \<Rightarrow> pyval Status \<Rightarrow> pyval outcome" where
  "timer_timeout lc polled self =
     (if timer_active self then Status_periodic lc polled self
      else \<lparr>state = self, emitted = [], logged = [], raised = None\<rparr>)"

text \<open>
  \<^verbatim>\<open>_Status.forceUpdate\<close>: every item of the dict is emitted, in its order, up to an
  emission that raises.
\<close>

fun forceUpdate_loop ::
  "module_env \<Rightarrow> pyval Status \<Rightarrow> (string \<times> pyval) list
     \<Rightarrow> pyval event list \<times> py_error option" where
  "forceUpdate_loop env self [] = ([], None)"
| "forceUpdate_loop env self ((key, v) # rest) =
     (case emit env self key v of
        (evs, Some e) \<Rightarrow> (evs, Some e)
      | (evs, None) \<Rightarrow>
          (case forceUpdate_loop env self rest of (evs', exc) \<Rightarrow> (evs @ evs', exc)))"

definition forceUpdate :: "module_env \<Rightarrow> pyval Status \<Rightarrow> pyval outcome" where
  "forceUpdate env self =
     (case forceUpdate_loop env self (old self) of
        (evs, exc) \<Rightarrow> \<lparr>state = self, emitted = evs, logged = [], raised = exc\<rparr>)"


section \<open>Example values\<close>

text \<open>
  Values of the outside constants, and small status records, for the evaluations below.
\<close>

abbreviation example_env :: module_env where
  "example_env \<equiv>
     \<lparr>linuxcnc = \<lparr>NML_ERROR = 1, OPERATOR_ERROR = 11, NML_TEXT = 2, OPERATOR_TEXT = 12,
                  NML_DISPLAY = 3, OPERATOR_DISPLAY = 13\<rparr>,
      INTERP_IDLE = 1,
      AXIS_NUMBER_LIST = [0, 1, 2]\<rparr>"

abbreviation example_stat :: "pyval \<Rightarrow> pyval \<Rightarrow> pyval stat" where
  "example_stat feedrate mcodes \<equiv>
     \<lparr>stat_dir = [''_doc'', ''axis'', ''feedrate'', ''mcodes'', ''paused''],
      stat_attr = (\<lambda>name. if name = ''feedrate'' then feedrate
                          else if name = ''mcodes'' then mcodes
                          else if name = ''paused'' then PyBool False
                          else PyNone),
      stat_joints = 0,
      stat_joint = []\<rparr>"

abbreviation single_field_stat :: "string \<Rightarrow> pyval \<Rightarrow> pyval stat" where
  "single_field_stat name v \<equiv>
     \<lparr>stat_dir = [name], stat_attr = (\<lambda>name. v), stat_joints = 0, stat_joint = []\<rparr>"

abbreviation unsignalled_stat :: "pyval stat" where
  "unsignalled_stat \<equiv>
     \<lparr>stat_dir = [''ini_filename'', ''paused''],
      stat_attr = (\<lambda>name. if name = ''ini_filename'' then PyStr ''a.ini'' else PyBool False),
      stat_joints = 0,
      stat_joint = []\<rparr>"

abbreviation nine_zeros :: pyval where
  "nine_zeros \<equiv>
     PyTuple [PyFloat 0, PyFloat 0, PyFloat 0, PyFloat 0, PyFloat 0, PyFloat 0, PyFloat 0,
              PyFloat 0, PyFloat 0]"

abbreviation rotated_stat :: "pyval stat" where
  "rotated_stat \<equiv>
     \<lparr>stat_dir = [''g5x_offset'', ''g92_offset''],
      stat_attr = (\<lambda>name. if name = ''rotation_xy'' then PyFloat 90 else nine_zeros),
      stat_joints = 0,
      stat_joint = []\<rparr>"


section \<open>Theorems\<close>

subsection \<open>Floats\<close>

lemma numeral_pyfloat: "(numeral k :: pyfloat) = Num (numeral k)"
proof (induction k)
  case One
  show ?case by (simp add: one_pyfloat_def)
next
  case (Bit0 k)
  have "(numeral (num.Bit0 k) :: pyfloat) = numeral k + numeral k"
    by (rule numeral_Bit0)
  also have "\<dots> = Num (numeral k) + Num (numeral k)"
    by (simp only: Bit0.IH)
  also have "\<dots> = Num (numeral (num.Bit0 k))"
    by (simp add: plus_pyfloat_def numeral_Bit0)
  finally show ?case .
next
  case (Bit1 k)
  have "(numeral (num.Bit1 k) :: pyfloat) = numeral k + numeral k + 1"
    by (rule numeral_Bit1)
  also have "\<dots> = Num (numeral k) + Num (numeral k) + Num 1"
    by (simp only: Bit1.IH one_pyfloat_def)
  also have "\<dots> = Num (numeral (num.Bit1 k))"
    by (simp add: plus_pyfloat_def numeral_Bit1)
  finally show ?case .
qed

lemmas pyfloat_simps =
  numeral_pyfloat zero_pyfloat_def one_pyfloat_def minus_pyfloat_def plus_pyfloat_def
  uminus_pyfloat_def times_pyfloat_def

subsection \<open>Axis letters and numbers\<close>

text \<open>
  C10. For every axis number \<open>n\<close> from 0 to 8, the letter of \<open>n\<close> converts back to \<open>n\<close>.
  The number \<open>-1\<close> gives the letter \<open>all\<close>, and \<open>all\<close> converts to 9, not to \<open>-1\<close>: the
  round trip fails at the sentinel.
\<close>

theorem axis_number_letter_round_trip:
  "(0 \<le> n \<and> n \<le> 8 \<longrightarrow>
      (\<exists>l. getAxisLetter (AxisInt n) = Inr l \<and> getAxisNumber (AxisStr l) = Inr n))
   \<and> getAxisLetter (AxisInt (- 1)) = Inr ''all''
   \<and> getAxisNumber (AxisStr ''all'') = Inr 9
   \<and> getAxisNumber (AxisStr ''all'') \<noteq> Inr (- 1)"
proof -
  have round: "\<exists>l. getAxisLetter (AxisInt n) = Inr l \<and> getAxisNumber (AxisStr l) = Inr n"
    if "0 \<le> n" "n \<le> 8"
  proof -
    from that consider "n = 0" | "n = 1" | "n = 2" | "n = 3" | "n = 4"
      | "n = 5" | "n = 6" | "n = 7" | "n = 8"
      by linarith
    then show ?thesis
      by cases
        (simp_all add: getAxisLetter_def getAxisNumber_def py_index_def axis_letters_def
           lower_def lower_char_def)
  qed
  have all_letter: "getAxisLetter (AxisInt (- 1)) = Inr ''all''"
    by (simp add: getAxisLetter_def py_index_def axis_letters_def)
  have all_number: "getAxisNumber (AxisStr ''all'') = Inr 9"
    by (simp add: getAxisNumber_def axis_letters_def lower_def lower_char_def)
  from round all_letter all_number show ?thesis by simp
qed

theorem axis_number_letter_round_trip_witness:
  "(0 \<le> (3::int) \<and> (3::int) \<le> 8)
   \<and> getAxisLetter (AxisInt 3) = Inr ''a''
   \<and> getAxisNumber (AxisStr ''a'') = Inr 3"
  using axis_number_letter_round_trip [of 3]
  by (simp add: getAxisLetter_def getAxisNumber_def py_index_def axis_letters_def
        lower_def lower_char_def)

subsection \<open>Formatted G-codes\<close>

lemma gcodes_loop_acc:
  "gcodes_loop xs acc = acc @ map render_gcode (filter (\<lambda>c. c \<noteq> - 1) xs)"
  by (induction xs arbitrary: acc) (simp_all add: render_gcode_def mod_eq_0_iff_dvd)

lemma updateFormatedGcodes_refines:
  "updateFormatedGcodes gcodes = formatted_gcodes_spec gcodes"
  by (simp add: updateFormatedGcodes_def formatted_gcodes_spec_def gcodes_loop_acc filter_sort)

lemma updateFormatedGcodes_example:
  "updateFormatedGcodes [x, 10, 11, - 1, 20] = [''G1'', ''G1.1'', ''G2'']"
  by (simp add: updateFormatedGcodes_def str_int_def)

text \<open>
  C5. For every raw list of active G-codes the emitted tuple is the rendering of the codes
  of the list without its first slot and without the sentinel \<open>-1\<close>, in ascending order:
  \<open>G\<close> and the whole part when the code is a multiple of 10, otherwise the whole part, a
  dot and the tenths. The raw codes \<open>[_, 10, 11, -1, 20]\<close> give \<open>G1\<close>, \<open>G1.1\<close>, \<open>G2\<close>.
\<close>

theorem updateFormatedGcodes_sorted_rendering:
  "updateFormatedGcodes gcodes = formatted_gcodes_spec gcodes
   \<and> (\<exists>codes. sorted codes
         \<and> mset codes = mset (filter (\<lambda>c. c \<noteq> - 1) (drop 1 gcodes))
         \<and> updateFormatedGcodes gcodes = map render_gcode codes)
   \<and> updateFormatedGcodes [x, 10, 11, - 1, 20] = [''G1'', ''G1.1'', ''G2'']"
proof -
  let ?codes = "sort (filter (\<lambda>c. c \<noteq> - 1) (drop 1 gcodes))"
  have r: "updateFormatedGcodes gcodes = map render_gcode ?codes"
    using updateFormatedGcodes_refines by (simp add: formatted_gcodes_spec_def)
  have "sorted ?codes \<and> mset ?codes = mset (filter (\<lambda>c. c \<noteq> - 1) (drop 1 gcodes))"
    by simp
  with r have "\<exists>codes. sorted codes
         \<and> mset codes = mset (filter (\<lambda>c. c \<noteq> - 1) (drop 1 gcodes))
         \<and> updateFormatedGcodes gcodes = map render_gcode codes"
    by blast
  with updateFormatedGcodes_refines updateFormatedGcodes_example show ?thesis by blast
qed

subsection \<open>The error channel\<close>

text \<open>
  C6. A drained entry whose text is missing or empty is taken off the queue, and every
  event published for it carries the text \<open>Unknown error!\<close>: an entry of the classes
  \<^verbatim>\<open>NML_ERROR\<close> or \<^verbatim>\<open>OPERATOR_ERROR\<close> is published as one \<^verbatim>\<open>new_error\<close> event with
  that text, an entry of the text and display classes as one \<^verbatim>\<open>new_message\<close> event
  with that text.
\<close>

theorem empty_text_gets_placeholder:
  assumes "mtext = None \<or> mtext = Some []"
  shows "(case Error_periodic lc ((kind, mtext) # pending) of
      (channel', evs :: 'v event list, lg) \<Rightarrow>
        channel' = pending
        \<and> list_all (\<lambda>e. event_text e = Some ''Unknown error!'') evs
        \<and> (kind \<in> {NML_ERROR lc, OPERATOR_ERROR lc} \<longrightarrow> evs = [New_error ''Unknown error!''])
        \<and> (kind \<notin> {NML_ERROR lc, OPERATOR_ERROR lc}
             \<and> kind \<in> {NML_TEXT lc, OPERATOR_TEXT lc, NML_DISPLAY lc, OPERATOR_DISPLAY lc}
            \<longrightarrow> evs = [New_message ''Unknown error!'']))"
  using assms by (auto simp: Error_periodic_def Let_def replace_empty_def)

theorem empty_text_gets_placeholder_witness:
  "Error_periodic \<lparr>NML_ERROR = 1, OPERATOR_ERROR = 11, NML_TEXT = 2, OPERATOR_TEXT = 12,
       NML_DISPLAY = 3, OPERATOR_DISPLAY = 13\<rparr> [(11, Some [])]
     = ([], [New_error ''Unknown error!'' :: nat event], [LogError ''Unknown error!''])
   \<and> Error_periodic \<lparr>NML_ERROR = 1, OPERATOR_ERROR = 11, NML_TEXT = 2, OPERATOR_TEXT = 12,
       NML_DISPLAY = 3, OPERATOR_DISPLAY = 13\<rparr> [(12, None)]
     = ([], [New_message ''Unknown error!'' :: nat event], [LogInfo ''Unknown error!''])"
  using empty_text_gets_placeholder
      [where mtext = "Some []" and kind = 11 and pending = "[]" and ?'v = nat
        and lc = "\<lparr>NML_ERROR = 1, OPERATOR_ERROR = 11, NML_TEXT = 2, OPERATOR_TEXT = 12,
          NML_DISPLAY = 3, OPERATOR_DISPLAY = 13\<rparr>"]
    empty_text_gets_placeholder
      [where mtext = None and kind = 12 and pending = "[]" and ?'v = nat
        and lc = "\<lparr>NML_ERROR = 1, OPERATOR_ERROR = 11, NML_TEXT = 2, OPERATOR_TEXT = 12,
          NML_DISPLAY = 3, OPERATOR_DISPLAY = 13\<rparr>"]
  by (simp add: Error_periodic_def Let_def replace_empty_def)

text \<open>
  C7, as the claim states it, fails: an entry of a class that is none of the six known
  ones (here 99) is logged, and no event is published for it.
\<close>

theorem unknown_class_published_counterexample:
  "Error_periodic \<lparr>NML_ERROR = 1, OPERATOR_ERROR = 11, NML_TEXT = 2, OPERATOR_TEXT = 12,
       NML_DISPLAY = 3, OPERATOR_DISPLAY = 13\<rparr> [(99, Some ''boom'')]
     = ([], [] :: nat event list, [LogError ''boom''])
   \<and> (99::int) \<notin> {1, 11, 2, 12, 3, 13}"
  by (simp add: Error_periodic_def Let_def replace_empty_def)

text \<open>
  C7, amended. An entry of the classes \<^verbatim>\<open>NML_ERROR\<close> or \<^verbatim>\<open>OPERATOR_ERROR\<close> is published
  as one \<^verbatim>\<open>new_error\<close> event and logged as an error; an entry of the text and display
  classes is published as one \<^verbatim>\<open>new_message\<close> event and logged as information; an
  entry of any other class is logged as an error and no event is published for it.
\<close>

theorem error_channel_classification:
  "(kind \<in> {NML_ERROR lc, OPERATOR_ERROR lc} \<longrightarrow>
      Error_periodic lc ((kind, mtext) # pending)
        = (pending, [New_error (replace_empty mtext) :: 'v event],
           [LogError (replace_empty mtext)]))
   \<and> (kind \<notin> {NML_ERROR lc, OPERATOR_ERROR lc}
        \<and> kind \<in> {NML_TEXT lc, OPERATOR_TEXT lc, NML_DISPLAY lc, OPERATOR_DISPLAY lc} \<longrightarrow>
      Error_periodic lc ((kind, mtext) # pending)
        = (pending, [New_message (replace_empty mtext) :: 'v event],
           [LogInfo (replace_empty mtext)]))
   \<and> (kind \<notin> {NML_ERROR lc, OPERATOR_ERROR lc, NML_TEXT lc, OPERATOR_TEXT lc,
                 NML_DISPLAY lc, OPERATOR_DISPLAY lc} \<longrightarrow>
      Error_periodic lc ((kind, mtext) # pending)
        = (pending, [] :: 'v event list, [LogError (replace_empty mtext)]))"
  by (auto simp: Error_periodic_def Let_def)

theorem error_channel_classification_witness:
  "Error_periodic \<lparr>NML_ERROR = 1, OPERATOR_ERROR = 11, NML_TEXT = 2, OPERATOR_TEXT = 12,
       NML_DISPLAY = 3, OPERATOR_DISPLAY = 13\<rparr> [(1, Some ''joint 0 following error'')]
     = ([], [New_error ''joint 0 following error'' :: nat event],
        [LogError ''joint 0 following error''])
   \<and> Error_periodic \<lparr>NML_ERROR = 1, OPERATOR_ERROR = 11, NML_TEXT = 2, OPERATOR_TEXT = 12,
       NML_DISPLAY = 3, OPERATOR_DISPLAY = 13\<rparr> [(13, Some ''tool change'')]
     = ([], [New_message ''tool change'' :: nat event], [LogInfo ''tool change''])
   \<and> Error_periodic \<lparr>NML_ERROR = 1, OPERATOR_ERROR = 11, NML_TEXT = 2, OPERATOR_TEXT = 12,
       NML_DISPLAY = 3, OPERATOR_DISPLAY = 13\<rparr> [(99, Some ''boom'')]
     = ([], [] :: nat event list, [LogError ''boom''])"
  using error_channel_classification
      [where kind = 1 and mtext = "Some ''joint 0 following error''" and pending = "[]"
        and ?'v = nat
        and lc = "\<lparr>NML_ERROR = 1, OPERATOR_ERROR = 11, NML_TEXT = 2, OPERATOR_TEXT = 12,
          NML_DISPLAY = 3, OPERATOR_DISPLAY = 13\<rparr>"]
    error_channel_classification
      [where kind = 13 and mtext = "Some ''tool change''" and pending = "[]" and ?'v = nat
        and lc = "\<lparr>NML_ERROR = 1, OPERATOR_ERROR = 11, NML_TEXT = 2, OPERATOR_TEXT = 12,
          NML_DISPLAY = 3, OPERATOR_DISPLAY = 13\<rparr>"]
    error_channel_classification
      [where kind = 99 and mtext = "Some ''boom''" and pending = "[]" and ?'v = nat
        and lc = "\<lparr>NML_ERROR = 1, OPERATOR_ERROR = 11, NML_TEXT = 2, OPERATOR_TEXT = 12,
          NML_DISPLAY = 3, OPERATOR_DISPLAY = 13\<rparr>"]
  by (simp add: replace_empty_def)

subsection \<open>The per-joint diff\<close>













subsection \<open>Axis positions\<close>

lemma rotate_xy_raises: "rotate_xy st rel = Inl (NameError ''math'')"
  by (simp add: rotate_xy_def load_global_def status_module_globals_def)

lemma updateAxisPositions_rotated_never_emits:
  "rotation_xy st \<noteq> 0 \<Longrightarrow> updateAxisPositions axes report_actual st pos_arg \<noteq> Inr out"
  by (simp add: updateAxisPositions_def rotate_xy_raises Let_def split: sum.splits)

lemma unrotated_example:
  "updateAxisPositions [0, 1, 2] False
     \<lparr>position = [10, 20, 30, 0, 0, 0, 0, 0, 0],
      actual_position = [1, 0, 0, 0, 0, 0, 0, 0, 0],
      dtg = [0, 0, 0, 0, 0, 0, 0, 0, 0],
      g5x_offset = [1, 2, 3, 0, 0, 0, 0, 0, 0],
      g92_offset = [4, 4, 4, 0, 0, 0, 0, 0, 0],
      tool_offset = [0, 0, 5, 0, 0, 0, 0, 0, 0],
      rotation_xy = 0\<rparr> None
   = Inr ([10, 20, 30, 0, 0, 0, 0, 0, 0], [5, 14, 18, 0, 0, 0, 0, 0, 0], [0, 0, 0, 0, 0, 0, 0, 0, 0])"
  by (simp add: updateAxisPositions_def py_index_def py_setitem_def eval_nat_numeral pyfloat_simps)

lemma py_index_in_range:
  "0 \<le> i \<Longrightarrow> nat i < length xs \<Longrightarrow> py_index xs i = Inr (xs ! nat i)"
  by (simp add: py_index_def)

lemma py_setitem_in_range:
  "0 \<le> i \<Longrightarrow> nat i < length xs \<Longrightarrow> py_setitem xs i v = Inr (xs[nat i := v])"
  by (simp add: py_setitem_def)

lemma offsets_loop_in_range:
  assumes "\<forall>a \<in> set axes. 0 \<le> a \<and> nat a < length rel \<and> nat a < length pos
             \<and> nat a < length g5x \<and> nat a < length tool"
  shows "\<exists>rel'. offsets_loop pos g5x tool axes rel = Inr rel' \<and> length rel' = length rel
           \<and> (\<forall>i < length rel. rel' ! i =
                 (if int i \<in> set axes then pos ! i - g5x ! i - tool ! i else rel ! i))"
  using assms
proof (induction axes arbitrary: rel)
  case Nil
  then show ?case by simp
next
  case (Cons a axes)
  let ?rel1 = "rel[nat a := pos ! nat a - g5x ! nat a - tool ! nat a]"
  from Cons.prems have a: "0 \<le> a" "nat a < length rel" "nat a < length pos"
    "nat a < length g5x" "nat a < length tool"
    by simp_all
  have step: "offsets_loop pos g5x tool (a # axes) rel = offsets_loop pos g5x tool axes ?rel1"
    using a by (simp add: py_index_in_range py_setitem_in_range)
  from Cons.prems have "\<forall>b \<in> set axes. 0 \<le> b \<and> nat b < length ?rel1 \<and> nat b < length pos
             \<and> nat b < length g5x \<and> nat b < length tool"
    by simp
  from Cons.IH [OF this] obtain rel' where r: "offsets_loop pos g5x tool axes ?rel1 = Inr rel'"
    "length rel' = length ?rel1"
    "\<forall>i < length ?rel1. rel' ! i =
        (if int i \<in> set axes then pos ! i - g5x ! i - tool ! i else ?rel1 ! i)"
    by blast
  have "\<forall>i < length rel. rel' ! i =
          (if int i \<in> set (a # axes) then pos ! i - g5x ! i - tool ! i else rel ! i)"
  proof (intro allI impI)
    fix i assume i: "i < length rel"
    show "rel' ! i = (if int i \<in> set (a # axes) then pos ! i - g5x ! i - tool ! i else rel ! i)"
    proof (cases "int i = a")
      case True
      then have "nat a = i" by simp
      with r(3) i a True show ?thesis by auto
    next
      case False
      then have "nat a \<noteq> i" using a by auto
      with r(3) i False show ?thesis by auto
    qed
  qed
  with step r show ?case by simp
qed

lemma g92_loop_in_range:
  assumes "\<forall>a \<in> set axes. 0 \<le> a \<and> nat a < length rel \<and> nat a < length g92"
    and "distinct axes"
  shows "\<exists>rel'. g92_loop g92 axes rel = Inr rel' \<and> length rel' = length rel
           \<and> (\<forall>i < length rel. rel' ! i =
                 (if int i \<in> set axes then rel ! i - g92 ! i else rel ! i))"
  using assms
proof (induction axes arbitrary: rel)
  case Nil
  then show ?case by simp
next
  case (Cons a axes)
  let ?rel1 = "rel[nat a := rel ! nat a - g92 ! nat a]"
  from Cons.prems have a: "0 \<le> a" "nat a < length rel" "nat a < length g92" "a \<notin> set axes"
    "distinct axes"
    by simp_all
  have step: "g92_loop g92 (a # axes) rel = g92_loop g92 axes ?rel1"
    using a by (simp add: py_index_in_range py_setitem_in_range)
  from Cons.prems have "\<forall>b \<in> set axes. 0 \<le> b \<and> nat b < length ?rel1 \<and> nat b < length g92"
    by simp
  from Cons.IH [OF this a(5)] obtain rel' where r: "g92_loop g92 axes ?rel1 = Inr rel'"
    "length rel' = length ?rel1"
    "\<forall>i < length ?rel1. rel' ! i = (if int i \<in> set axes then ?rel1 ! i - g92 ! i else ?rel1 ! i)"
    by blast
  have "\<forall>i < length rel. rel' ! i =
          (if int i \<in> set (a # axes) then rel ! i - g92 ! i else rel ! i)"
  proof (intro allI impI)
    fix i assume i: "i < length rel"
    show "rel' ! i = (if int i \<in> set (a # axes) then rel ! i - g92 ! i else rel ! i)"
    proof (cases "int i = a")
      case True
      then have "nat a = i" by simp
      with r(3) i a True show ?thesis by auto
    next
      case False
      then have "nat a \<noteq> i" using a by auto
      with r(3) i False show ?thesis by auto
    qed
  qed
  with step r show ?case by simp
qed

lemma updateAxisPositions_unrotated:
  assumes rot: "rotation_xy st = 0"
    and axes: "distinct axes"
      "\<forall>a \<in> set axes. 0 \<le> a \<and> a < 9 \<and> nat a < length pos
          \<and> nat a < length (g5x_offset st) \<and> nat a < length (tool_offset st)
          \<and> nat a < length (g92_offset st)"
  shows "\<exists>rel. updateAxisPositions axes report_actual st (Some pos) = Inr (pos, rel, dtg st)
           \<and> length rel = 9
           \<and> (\<forall>i < 9. rel ! i =
                 (if int i \<in> set axes
                  then pos ! i - g5x_offset st ! i - tool_offset st ! i - g92_offset st ! i
                  else 0))"
proof -
  let ?zero = "replicate 9 (0::pyfloat)"
  from axes(2) have "\<forall>a \<in> set axes. 0 \<le> a \<and> nat a < length ?zero \<and> nat a < length pos
             \<and> nat a < length (g5x_offset st) \<and> nat a < length (tool_offset st)"
    by auto
  from offsets_loop_in_range [OF this] obtain rel1 where
    r1: "offsets_loop pos (g5x_offset st) (tool_offset st) axes ?zero = Inr rel1"
      "length rel1 = 9"
      "\<forall>i < 9. rel1 ! i =
         (if int i \<in> set axes then pos ! i - g5x_offset st ! i - tool_offset st ! i else 0)"
    by auto
  from axes(2) r1(2) have "\<forall>a \<in> set axes. 0 \<le> a \<and> nat a < length rel1
      \<and> nat a < length (g92_offset st)"
    by auto
  from g92_loop_in_range [OF this axes(1)] obtain rel2 where
    r2: "g92_loop (g92_offset st) axes rel1 = Inr rel2" "length rel2 = 9"
      "\<forall>i < 9. rel2 ! i = (if int i \<in> set axes then rel1 ! i - g92_offset st ! i else rel1 ! i)"
    using r1(2) by auto
  from r1(3) r2(3) have "\<forall>i < 9. rel2 ! i =
                 (if int i \<in> set axes
                  then pos ! i - g5x_offset st ! i - tool_offset st ! i - g92_offset st ! i
                  else 0)"
    by auto
  with rot r1(1) r2(1,2) show ?thesis
    by (simp add: updateAxisPositions_def)
qed

text \<open>
  C4. The claim has the relative vector rotated in the XY plane when \<^verbatim>\<open>rotation_xy\<close> is
  not zero, so that at 90 degrees \<open>(1, 0)\<close> becomes \<open>(0, 1)\<close>. The code does not get
  there: at \<^verbatim>\<open>rotation_xy = 90\<close>, with the position \<open>(1, 0, 0, ...)\<close> and all offsets
  zero, the rotation branch raises NameError for \<^verbatim>\<open>math\<close>, which the module never
  imports, and nothing is emitted.
\<close>

theorem updateAxisPositions_rotation_raises:
  "updateAxisPositions [0, 1, 2] False
     \<lparr>position = [1, 0, 0, 0, 0, 0, 0, 0, 0],
      actual_position = [1, 0, 0, 0, 0, 0, 0, 0, 0],
      dtg = [0, 0, 0, 0, 0, 0, 0, 0, 0],
      g5x_offset = [0, 0, 0, 0, 0, 0, 0, 0, 0],
      g92_offset = [0, 0, 0, 0, 0, 0, 0, 0, 0],
      tool_offset = [0, 0, 0, 0, 0, 0, 0, 0, 0],
      rotation_xy = 90\<rparr> None
   = Inl (NameError ''math'')"
  by (simp add: updateAxisPositions_def rotate_xy_raises py_index_def py_setitem_def pyfloat_simps)

subsection \<open>The poll-diff-dispatch cycle\<close>

lemma slot_updateAxisPositions_derived:
  "filter is_status_signal (fst (slot_updateAxisPositions env self v)) = []"
  by (simp add: slot_updateAxisPositions_def split: option.splits sum.splits prod.splits)

lemma run_slot_derived: "filter is_status_signal (fst (run_slot env self slot v)) = []"
  by (simp add: run_slot_def slot_updateAxisPositions_derived updateFileLoaded_def
        split: option.splits)

lemma run_slots_derived: "filter is_status_signal (fst (run_slots env self slots v)) = []"
proof (induction slots)
  case Nil
  then show ?case by simp
next
  case (Cons slot rest)
  show ?case
    using Cons.IH run_slot_derived [of env self slot v]
    by (auto split: prod.splits option.splits)
qed

lemma emit_field_events:
  "filter is_status_signal (fst (emit env self key v))
     = (if key \<in> set status_signals then [Signal key v] else [])"
  using run_slots_derived
    [of env self "map snd (filter (\<lambda>c. fst c = key) (connections self))" v]
  by (auto simp: emit_def split: prod.splits)

lemma emit_returns_has_signal:
  "snd (emit env self key v) = None \<Longrightarrow> key \<in> set status_signals"
  by (auto simp: emit_def split: if_splits prod.splits)

lemma periodic_loop_completed:
  assumes "snd (snd (periodic_loop env self items)) = None"
  shows "fst (periodic_loop env self items)
           = map (\<lambda>(key, v). (key, if py_ne v (stat_attr (stat self) key)
                                      then stat_attr (stat self) key else v)) items
       \<and> filter is_status_signal (fst (snd (periodic_loop env self items)))
           = map (\<lambda>(key, v). Signal key (stat_attr (stat self) key))
               (filter (\<lambda>(key, v). py_ne v (stat_attr (stat self) key)) items)"
  using assms
proof (induction items)
  case Nil
  then show ?case by simp
next
  case (Cons item rest)
  obtain key old_value where item: "item = (key, old_value)" by (cases item)
  show ?case
  proof (cases "py_ne old_value (stat_attr (stat self) key)")
    case False
    obtain old' evs' exc' where r: "periodic_loop env self rest = (old', evs', exc')"
      by (cases "periodic_loop env self rest") auto
    from Cons.prems item False r
    have "snd (snd (periodic_loop env self rest)) = None"
      by (simp add: Let_def)
    from Cons.IH [OF this] item False r show ?thesis
      by (simp add: Let_def)
  next
    case True
    obtain evs exc where e: "emit env self key (stat_attr (stat self) key) = (evs, exc)"
      by (cases "emit env self key (stat_attr (stat self) key)")
    with Cons.prems item True have none: "exc = None"
      by (cases exc) (auto simp: Let_def)
    with emit_returns_has_signal [of env self key "stat_attr (stat self) key"] e
    have sig: "key \<in> set status_signals" by simp
    from emit_field_events [of env self key "stat_attr (stat self) key"] e sig
    have fe: "filter is_status_signal evs = [Signal key (stat_attr (stat self) key)]"
      by simp
    obtain old' evs' exc' where r: "periodic_loop env self rest = (old', evs', exc')"
      by (cases "periodic_loop env self rest") auto
    from Cons.prems item True e none r
    have "snd (snd (periodic_loop env self rest)) = None"
      by (simp add: Let_def)
    from Cons.IH [OF this] item True e none fe r show ?thesis
      by (simp add: Let_def)
  qed
qed

lemma periodic_loop_sound:
  "Signal key v \<in> set (fst (snd (periodic_loop env self items))) \<Longrightarrow>
     (\<exists>old_value. (key, old_value) \<in> set items \<and> py_ne old_value (stat_attr (stat self) key))
     \<and> v = stat_attr (stat self) key"
proof (induction items)
  case Nil
  then show ?case by simp
next
  case (Cons item rest)
  obtain k old_value where item: "item = (k, old_value)" by (cases item)
  show ?case
  proof (cases "py_ne old_value (stat_attr (stat self) k)")
    case False
    with Cons item show ?thesis
      by (auto simp: Let_def split: prod.splits)
  next
    case True
    obtain evs exc where e: "emit env self k (stat_attr (stat self) k) = (evs, exc)"
      by (cases "emit env self k (stat_attr (stat self) k)")
    have here: "k = key \<and> v = stat_attr (stat self) k" if "Signal key v \<in> set evs"
    proof -
      from that have "Signal key v \<in> set (filter is_status_signal evs)" by simp
      with emit_field_events [of env self k "stat_attr (stat self) k"] e show ?thesis
        by (auto split: if_splits)
    qed
    from Cons.prems item True e
    have "Signal key v \<in> set evs
          \<or> Signal key v \<in> set (fst (snd (periodic_loop env self rest)))"
      by (cases exc) (auto simp: Let_def split: prod.splits)
    then show ?thesis
    proof
      assume "Signal key v \<in> set evs"
      from here [OF this] item True show ?thesis by auto
    next
      assume "Signal key v \<in> set (fst (snd (periodic_loop env self rest)))"
      from Cons.IH [OF this] show ?thesis by auto
    qed
  qed
qed

lemma periodic_loop_nothing_changed:
  "list_all (\<lambda>(key, v). py_eq v (stat_attr (stat self) key)) items \<Longrightarrow>
     periodic_loop env self items = (items, [], None)"
  by (induction items) (auto simp: Let_def py_ne_def)

lemma joint_emit_no_status_signal:
  "filter is_status_signal (fst (joint_emit jnum items)) = []"
  by (induction items) (auto split: if_splits prod.splits)

lemma joint_loop_no_status_signal:
  "filter is_status_signal (fst (joint_loop new old_t js)) = []"
proof (induction js)
  case Nil
  then show ?case by simp
next
  case (Cons jnum rest)
  show ?case
    using Cons.IH
      joint_emit_no_status_signal
        [of jnum "filter (\<lambda>item. item \<notin> set (old_t ! jnum)) (new ! jnum)"]
    by (auto split: prod.splits option.splits)
qed

lemma Error_periodic_no_status_signal:
  "filter is_status_signal (fst (snd (Error_periodic lc channel))) = []"
  by (auto simp: Error_periodic_def Let_def split: list.splits)

text \<open>The cycle around the loop: the dict and the field events are those of the loop.\<close>

lemma Status_periodic_loop:
  "old (state (Status_periodic env (PollOk st) self))
     = fst (periodic_loop env (self\<lparr>stat := st\<rparr>) (old self))
   \<and> filter is_status_signal (emitted (Status_periodic env (PollOk st) self))
     = filter is_status_signal (fst (snd (periodic_loop env (self\<lparr>stat := st\<rparr>) (old self))))"
proof -
  obtain old' evs exc
    where l: "periodic_loop env (self\<lparr>stat := st\<rparr>) (old self) = (old', evs, exc)"
    by (cases "periodic_loop env (self\<lparr>stat := st\<rparr>) (old self)") auto
  obtain joint' jevs jexc
    where j: "Joint_periodic (stat_joint st) (joint self) = (joint', jevs, jexc)"
    by (cases "Joint_periodic (stat_joint st) (joint self)") auto
  then have "jevs = fst (joint_loop (stat_joint st) (joint_old (joint self))
                           [0 ..< nat (num_joints (joint self))])"
    by (simp add: Joint_periodic_def)
  then have jevs: "filter is_status_signal jevs = []"
    using joint_loop_no_status_signal by simp
  obtain channel' eevs elog
    where e: "Error_periodic (linuxcnc env) (error_channel self)
                = (channel', eevs :: pyval event list, elog)"
    by (cases "Error_periodic (linuxcnc env) (error_channel self)
                 :: _ \<times> pyval event list \<times> _") auto
  have eevs: "filter is_status_signal eevs = []"
    using Error_periodic_no_status_signal
      [of "linuxcnc env" "error_channel self", where ?'a = pyval] e
    by simp
  show ?thesis
    using l j e jevs eevs
    by (cases exc; cases jexc) (simp_all add: Status_periodic_def)
qed

lemma py_eq_same:
  "(nan_free v \<longrightarrow> py_eq v v)" and "(nan_free_items vs \<longrightarrow> py_eq_items vs vs)"
proof (induction v and vs rule: nan_free_nan_free_items.induct)
  case (1 f)
  then show ?case by (cases f) auto
qed auto

lemmas cycle_defs =
  Status_init_def monitored_def excluded_items_def status_signals_def
  Status_periodic_def Joint_periodic_def Error_periodic_def
  emit_def run_slot_def py_ne_def ints_of_def updateFormatedMcodes_def str_int_def
  Let_def

lemma example_cycle:
  "Status_periodic example_env
      (PollOk (example_stat (PyFloat 2) (PyTuple [PyInt 0, PyInt 5, PyInt 3, PyInt (- 1)])))
      (Status_init (example_stat (PyFloat 1) (PyTuple [PyInt 0, PyInt 5, PyInt (- 1)])) [])
   = \<lparr>state =
        (Status_init (example_stat (PyFloat 1) (PyTuple [PyInt 0, PyInt 5, PyInt (- 1)])) [])
          \<lparr>stat := example_stat (PyFloat 2) (PyTuple [PyInt 0, PyInt 5, PyInt 3, PyInt (- 1)]),
           old := [(''feedrate'', PyFloat 2),
                   (''mcodes'', PyTuple [PyInt 0, PyInt 5, PyInt 3, PyInt (- 1)]),
                   (''paused'', PyBool False)]\<rparr>,
      emitted = [Signal ''feedrate'' (PyFloat 2),
                 Signal ''mcodes'' (PyTuple [PyInt 0, PyInt 5, PyInt 3, PyInt (- 1)]),
                 Derived ''formated_mcodes'' (PyTuple [PyStr ''M3'', PyStr ''M5''])],
      logged = [],
      raised = None\<rparr>"
  by (simp add: cycle_defs pyfloat_simps)

text \<open>
  C1, as the claim states it, fails in two ways. A field whose retained and polled values
  are the same NaN is emitted all the same, since NaN is unequal to itself: two identical
  snapshots give an event. And a field that changed but has no signal of its name
  (\<^verbatim>\<open>ini_filename\<close>) gets its retained value replaced and then raises AttributeError:
  no event is emitted for it.
\<close>

theorem cycle_emits_exactly_changed_fields_counterexample:
  "old (Status_init (single_field_stat ''current_vel'' (PyFloat NaN)) [])
     = [(''current_vel'', PyFloat NaN)]
   \<and> stat_attr (single_field_stat ''current_vel'' (PyFloat NaN)) ''current_vel'' = PyFloat NaN
   \<and> emitted (Status_periodic example_env
        (PollOk (single_field_stat ''current_vel'' (PyFloat NaN)))
        (Status_init (single_field_stat ''current_vel'' (PyFloat NaN)) []))
      = [Signal ''current_vel'' (PyFloat NaN)]
   \<and> old (Status_init (single_field_stat ''ini_filename'' (PyStr ''a.ini'')) [])
     = [(''ini_filename'', PyStr ''a.ini'')]
   \<and> emitted (Status_periodic example_env
        (PollOk (single_field_stat ''ini_filename'' (PyStr ''b.ini'')))
        (Status_init (single_field_stat ''ini_filename'' (PyStr ''a.ini'')) []))
      = []
   \<and> raised (Status_periodic example_env
        (PollOk (single_field_stat ''ini_filename'' (PyStr ''b.ini'')))
        (Status_init (single_field_stat ''ini_filename'' (PyStr ''a.ini'')) []))
      = Some (AttributeError ''ini_filename'')
   \<and> old (state (Status_periodic example_env
        (PollOk (single_field_stat ''ini_filename'' (PyStr ''b.ini'')))
        (Status_init (single_field_stat ''ini_filename'' (PyStr ''a.ini'')) [])))
      = [(''ini_filename'', PyStr ''b.ini'')]"
  by (simp add: cycle_defs)

text \<open>
  C1, amended. In a cycle whose poll succeeds, a field event is only ever emitted for a
  monitored field whose polled value differs from the retained one under \<^verbatim>\<open>!=\<close>, and
  it carries the polled value. When no emission of the loop raises, the converse holds as
  well: the field events are one for each such field, in the order of the dict, its
  retained value has become the polled value, and the retained values of the other fields
  stay. Under \<^verbatim>\<open>!=\<close> a NaN differs from itself; when every polled value is identical to
  the retained one and holds no NaN, no field event is emitted and the retained values
  stay as they are. The monitored fields are those attributes of the status record that
  neither start with an underscore nor are excluded.
\<close>

theorem cycle_emits_exactly_changed_fields:
  "(Signal key v \<in> set (emitted (Status_periodic lc (PollOk st) self)) \<longrightarrow>
      (\<exists>old_value. (key, old_value) \<in> set (old self) \<and> py_ne old_value (stat_attr st key))
      \<and> v = stat_attr st key)
   \<and> (snd (snd (periodic_loop lc (self\<lparr>stat := st\<rparr>) (old self))) = None \<longrightarrow>
      old (state (Status_periodic lc (PollOk st) self))
        = map (\<lambda>(key, v). (key, if py_ne v (stat_attr st key) then stat_attr st key else v))
            (old self)
      \<and> filter is_status_signal (emitted (Status_periodic lc (PollOk st) self))
        = map (\<lambda>(key, v). Signal key (stat_attr st key))
            (filter (\<lambda>(key, v). py_ne v (stat_attr st key)) (old self))
      \<and> (Signal key v \<in> set (emitted (Status_periodic lc (PollOk st) self)) \<longleftrightarrow>
           (\<exists>old_value. (key, old_value) \<in> set (old self)
               \<and> py_ne old_value (stat_attr st key))
           \<and> v = stat_attr st key))
   \<and> (list_all (\<lambda>(key, v). v = stat_attr st key \<and> nan_free v) (old self) \<longrightarrow>
        filter is_status_signal (emitted (Status_periodic lc (PollOk st) self)) = []
        \<and> old (state (Status_periodic lc (PollOk st) self)) = old self)
   \<and> map fst (old (Status_init (st0 :: pyval stat) channel)) = filter monitored (stat_dir st0)"
proof -
  let ?out = "Status_periodic lc (PollOk st) self"
  let ?self = "self\<lparr>stat := st\<rparr>"
  let ?loop = "periodic_loop lc ?self (old self)"
  let ?changed = "filter (\<lambda>(key, v). py_ne v (stat_attr st key)) (old self)"
  note cyc = Status_periodic_loop [of lc st self]
  have mem: "Signal key v \<in> set (emitted ?out) \<longleftrightarrow> Signal key v \<in> set (fst (snd ?loop))"
  proof -
    have "Signal key v \<in> set (emitted ?out)
            \<longleftrightarrow> Signal key v \<in> set (filter is_status_signal (emitted ?out))"
      by simp
    also have "\<dots> \<longleftrightarrow> Signal key v \<in> set (filter is_status_signal (fst (snd ?loop)))"
      using cyc by simp
    also have "\<dots> \<longleftrightarrow> Signal key v \<in> set (fst (snd ?loop))"
      by simp
    finally show ?thesis .
  qed
  have sound: "(\<exists>old_value. (key, old_value) \<in> set (old self)
                  \<and> py_ne old_value (stat_attr st key))
               \<and> v = stat_attr st key"
    if "Signal key v \<in> set (emitted ?out)"
    using periodic_loop_sound [of key v lc ?self "old self"] that mem by simp
  have complete: "old (state ?out)
        = map (\<lambda>(key, v). (key, if py_ne v (stat_attr st key) then stat_attr st key else v))
            (old self)
      \<and> filter is_status_signal (emitted ?out)
        = map (\<lambda>(key, v). Signal key (stat_attr st key)) ?changed
      \<and> (Signal key v \<in> set (emitted ?out) \<longleftrightarrow>
           (\<exists>old_value. (key, old_value) \<in> set (old self)
               \<and> py_ne old_value (stat_attr st key))
           \<and> v = stat_attr st key)"
    if ended: "snd (snd ?loop) = None"
  proof -
    note ok = periodic_loop_completed [OF ended]
    have "Signal key v \<in> set (emitted ?out)
            \<longleftrightarrow> Signal key v \<in> set (filter is_status_signal (fst (snd ?loop)))"
      using mem by simp
    also have "\<dots> \<longleftrightarrow> Signal key v
                 \<in> set (map (\<lambda>(key, v). Signal key (stat_attr st key)) ?changed)"
      using ok by simp
    also have "\<dots> \<longleftrightarrow> (\<exists>old_value. (key, old_value) \<in> set (old self)
               \<and> py_ne old_value (stat_attr st key))
           \<and> v = stat_attr st key"
      by auto
    finally show ?thesis using ok cyc by (simp cong: if_cong)
  qed
  have same: "filter is_status_signal (emitted ?out) = [] \<and> old (state ?out) = old self"
    if eq: "list_all (\<lambda>(key, v). v = stat_attr st key \<and> nan_free v) (old self)"
  proof -
    from eq have "list_all (\<lambda>(key, v). py_eq v (stat_attr (stat ?self) key)) (old self)"
      using py_eq_same(1) by (auto simp: list_all_iff)
    from periodic_loop_nothing_changed [OF this, of lc] cyc show ?thesis by simp
  qed
  have init: "map fst (old (Status_init st0 channel)) = filter monitored (stat_dir st0)"
    by (simp add: Status_init_def comp_def)
  from sound complete same init show ?thesis by blast
qed

theorem cycle_emits_exactly_changed_fields_witness:
  "snd (snd (periodic_loop example_env
      ((Status_init (example_stat (PyFloat 1) (PyTuple [PyInt 0, PyInt 5, PyInt (- 1)])) [])
         \<lparr>stat := example_stat (PyFloat 2)
                    (PyTuple [PyInt 0, PyInt 5, PyInt 3, PyInt (- 1)])\<rparr>)
      (old (Status_init
              (example_stat (PyFloat 1) (PyTuple [PyInt 0, PyInt 5, PyInt (- 1)])) []))))
     = None
   \<and> old (state (Status_periodic example_env
        (PollOk (example_stat (PyFloat 2) (PyTuple [PyInt 0, PyInt 5, PyInt 3, PyInt (- 1)])))
        (Status_init (example_stat (PyFloat 1) (PyTuple [PyInt 0, PyInt 5, PyInt (- 1)])) [])))
      = [(''feedrate'', PyFloat 2),
         (''mcodes'', PyTuple [PyInt 0, PyInt 5, PyInt 3, PyInt (- 1)]),
         (''paused'', PyBool False)]
   \<and> emitted (Status_periodic example_env
        (PollOk (example_stat (PyFloat 2) (PyTuple [PyInt 0, PyInt 5, PyInt 3, PyInt (- 1)])))
        (Status_init (example_stat (PyFloat 1) (PyTuple [PyInt 0, PyInt 5, PyInt (- 1)])) []))
      = [Signal ''feedrate'' (PyFloat 2),
         Signal ''mcodes'' (PyTuple [PyInt 0, PyInt 5, PyInt 3, PyInt (- 1)]),
         Derived ''formated_mcodes'' (PyTuple [PyStr ''M3'', PyStr ''M5''])]
   \<and> list_all
        (\<lambda>(key, v). v = stat_attr
                            (example_stat (PyFloat 1) (PyTuple [PyInt 0, PyInt 5, PyInt (- 1)]))
                            key
                      \<and> nan_free v)
        (old (Status_init
                (example_stat (PyFloat 1) (PyTuple [PyInt 0, PyInt 5, PyInt (- 1)])) []))
   \<and> filter is_status_signal (emitted (Status_periodic example_env
        (PollOk (example_stat (PyFloat 1) (PyTuple [PyInt 0, PyInt 5, PyInt (- 1)])))
        (Status_init (example_stat (PyFloat 1) (PyTuple [PyInt 0, PyInt 5, PyInt (- 1)])) [])))
      = []"
proof -
  let ?st0 = "example_stat (PyFloat 1) (PyTuple [PyInt 0, PyInt 5, PyInt (- 1)])"
  let ?st1 = "example_stat (PyFloat 2) (PyTuple [PyInt 0, PyInt 5, PyInt 3, PyInt (- 1)])"
  have init: "old (Status_init ?st0 [])
      = [(''feedrate'', PyFloat 1), (''mcodes'', PyTuple [PyInt 0, PyInt 5, PyInt (- 1)]),
         (''paused'', PyBool False)]"
    by (simp add: Status_init_def monitored_def excluded_items_def)
  have ended: "snd (snd (periodic_loop example_env ((Status_init ?st0 [])\<lparr>stat := ?st1\<rparr>)
                  (old (Status_init ?st0 [])))) = None"
    by (simp add: cycle_defs pyfloat_simps)
  have same: "list_all (\<lambda>(key, v). v = stat_attr ?st0 key \<and> nan_free v)
                (old (Status_init ?st0 []))"
    by (simp add: init pyfloat_simps)
  note thm1 = cycle_emits_exactly_changed_fields
      [where lc = example_env and st = ?st1 and self = "Status_init ?st0 []"
         and key = "''feedrate''" and v = "PyFloat 2" and st0 = ?st0 and channel = "[]"]
  note thm0 = cycle_emits_exactly_changed_fields
      [where lc = example_env and st = ?st0 and self = "Status_init ?st0 []"
         and key = "''feedrate''" and v = "PyFloat 2" and st0 = ?st0 and channel = "[]"]
  from thm1 [THEN conjunct2, THEN conjunct1, THEN mp, OF ended, THEN conjunct1]
  have "old (state (Status_periodic example_env (PollOk ?st1) (Status_init ?st0 [])))
      = [(''feedrate'', PyFloat 2),
         (''mcodes'', PyTuple [PyInt 0, PyInt 5, PyInt 3, PyInt (- 1)]),
         (''paused'', PyBool False)]"
    by (simp add: init py_ne_def pyfloat_simps)
  moreover
  from thm0 [THEN conjunct2, THEN conjunct2, THEN conjunct1, THEN mp, OF same, THEN conjunct1]
  have "filter is_status_signal (emitted (Status_periodic example_env (PollOk ?st0)
                                            (Status_init ?st0 []))) = []" .
  moreover have "emitted (Status_periodic example_env (PollOk ?st1) (Status_init ?st0 []))
      = [Signal ''feedrate'' (PyFloat 2),
         Signal ''mcodes'' (PyTuple [PyInt 0, PyInt 5, PyInt 3, PyInt (- 1)]),
         Derived ''formated_mcodes'' (PyTuple [PyStr ''M3'', PyStr ''M5''])]"
    by (simp add: example_cycle)
  ultimately show ?thesis using ended same by blast
qed

text \<open>
  C2. A cycle whose poll raises emits no event, logs one warning and raises nothing; it
  leaves the retained values, the joint baseline and the error queue as they were, and
  stops the timer: a later timeout does nothing, whatever the poll would give, until
  \<^verbatim>\<open>startPeriodic\<close> starts the timer again.
\<close>

theorem poll_failure_halts_cycle:
  "Status_periodic lc PollRaises self =
     \<lparr>state = self\<lparr>timer_active := False\<rparr>, emitted = [],
      logged = [LogWarning ''Status polling failed, is LinuxCNC running?''], raised = None\<rparr>
   \<and> old (state (Status_periodic lc PollRaises self)) = old self
   \<and> joint (state (Status_periodic lc PollRaises self)) = joint self
   \<and> error_channel (state (Status_periodic lc PollRaises self)) = error_channel self
   \<and> \<not> timer_active (state (Status_periodic lc PollRaises self))
   \<and> timer_timeout lc polled (state (Status_periodic lc PollRaises self)) =
       \<lparr>state = state (Status_periodic lc PollRaises self), emitted = [], logged = [],
        raised = None\<rparr>
   \<and> timer_active (startPeriodic (state (Status_periodic lc PollRaises self)))"
  by (simp add: Status_periodic_def timer_timeout_def startPeriodic_def)

theorem poll_failure_halts_cycle_witness:
  "emitted (Status_periodic example_env PollRaises
      (startPeriodic (Status_init (example_stat (PyFloat 1) PyNone) [(1, None)]))) = []
   \<and> old (state (Status_periodic example_env PollRaises
      (startPeriodic (Status_init (example_stat (PyFloat 1) PyNone) [(1, None)]))))
      = [(''feedrate'', PyFloat 1), (''mcodes'', PyNone), (''paused'', PyBool False)]
   \<and> error_channel (state (Status_periodic example_env PollRaises
      (startPeriodic (Status_init (example_stat (PyFloat 1) PyNone) [(1, None)]))))
      = [(1, None)]
   \<and> timer_active (startPeriodic (Status_init (example_stat (PyFloat 1) PyNone) [(1, None)]))
   \<and> \<not> timer_active (state (Status_periodic example_env PollRaises
      (startPeriodic (Status_init (example_stat (PyFloat 1) PyNone) [(1, None)]))))"
  using poll_failure_halts_cycle
      [where lc = example_env and polled = PollRaises
         and self = "startPeriodic (Status_init (example_stat (PyFloat 1) PyNone) [(1, None)])"]
  by (simp add: startPeriodic_def Status_init_def monitored_def excluded_items_def)

subsection \<open>Republishing every field\<close>

lemma forceUpdate_state_unchanged: "state (forceUpdate env self) = self"
  by (simp add: forceUpdate_def split: prod.splits)

lemma forceUpdate_loop_completed:
  "snd (forceUpdate_loop env self items) = None \<Longrightarrow>
     filter is_status_signal (fst (forceUpdate_loop env self items))
       = map (\<lambda>(key, v). Signal key v) items"
proof (induction items)
  case Nil
  then show ?case by simp
next
  case (Cons item rest)
  obtain key v where item: "item = (key, v)" by (cases item)
  obtain evs exc where e: "emit env self key v = (evs, exc)"
    by (cases "emit env self key v")
  obtain evs' exc' where r: "forceUpdate_loop env self rest = (evs', exc')"
    by (cases "forceUpdate_loop env self rest")
  from Cons.prems item e have none: "exc = None"
    by (cases exc) auto
  with emit_returns_has_signal [of env self key v] e have "key \<in> set status_signals"
    by simp
  with emit_field_events [of env self key v] e
  have fe: "filter is_status_signal evs = [Signal key v]" by simp
  from Cons.prems item e none r have "snd (forceUpdate_loop env self rest) = None"
    by simp
  from Cons.IH [OF this] item e none r fe show ?case by simp
qed

text \<open>
  C8. The claim has \<^verbatim>\<open>forceUpdate\<close> republish the value of every retained field. It
  stops at the first emission that raises. With \<^verbatim>\<open>rotation_xy = 90\<close> in the status record
  and the fields \<^verbatim>\<open>g5x_offset\<close> and \<^verbatim>\<open>g92_offset\<close> retained, the call emits the first
  of the two; the slot \<^verbatim>\<open>updateAxisPositions\<close> connected to it raises NameError for
  \<^verbatim>\<open>math\<close>, and the other field is not republished. With the fields \<^verbatim>\<open>ini_filename\<close>,
  of which the class has no signal, and \<^verbatim>\<open>paused\<close> retained, the call raises
  AttributeError at \<^verbatim>\<open>ini_filename\<close> and republishes nothing, or \<^verbatim>\<open>paused\<close> alone when
  the dict has it first.
\<close>

theorem forceUpdate_stops_at_first_exception:
  "old (Status_init rotated_stat [])
     = [(''g5x_offset'', nine_zeros), (''g92_offset'', nine_zeros)]
   \<and> emitted (forceUpdate example_env (Status_init rotated_stat []))
     = [Signal ''g5x_offset'' nine_zeros]
   \<and> raised (forceUpdate example_env (Status_init rotated_stat []))
     = Some (NameError ''math'')
   \<and> old (Status_init unsignalled_stat [])
     = [(''ini_filename'', PyStr ''a.ini''), (''paused'', PyBool False)]
   \<and> emitted (forceUpdate example_env (Status_init unsignalled_stat [])) = []
   \<and> raised (forceUpdate example_env (Status_init unsignalled_stat []))
     = Some (AttributeError ''ini_filename'')
   \<and> emitted (forceUpdate example_env
        ((Status_init unsignalled_stat [])
           \<lparr>old := [(''paused'', PyBool False), (''ini_filename'', PyStr ''a.ini'')]\<rparr>))
     = [Signal ''paused'' (PyBool False)]
   \<and> raised (forceUpdate example_env
        ((Status_init unsignalled_stat [])
           \<lparr>old := [(''paused'', PyBool False), (''ini_filename'', PyStr ''a.ini'')]\<rparr>))
     = Some (AttributeError ''ini_filename'')"
  by (simp add: forceUpdate_def cycle_defs slot_updateAxisPositions_def pos_stat_of_def
        floats_of_def updateAxisPositions_def rotate_xy_raises py_index_def py_setitem_def
        pyfloat_simps)

subsection \<open>Commanded and actual positions\<close>

lemma count_list_remove1:
  "count_list (remove1 x xs) y = (if x = y then count_list xs y - 1 else count_list xs y)"
  by (induction xs) auto

lemma in_set_count_list: "x \<in> set xs \<longleftrightarrow> 0 < count_list xs x"
  by (induction xs) auto

lemma init_consistent: "mode_consistent (Status_init st channel)"
  by (simp add: mode_consistent_def Status_init_def connected_def)

lemma setReportActualPosition_consistent:
  assumes "mode_consistent self"
  shows "snd (setReportActualPosition b self) = None
         \<and> mode_consistent (fst (setReportActualPosition b self))
         \<and> report_actual_position (fst (setReportActualPosition b self)) = b"
  using assms
  by (cases b; cases "report_actual_position self")
     (auto simp: mode_consistent_def setReportActualPosition_def swap_connections_def
        disconnect_def connect_def connected_def count_list_remove1 in_set_count_list Let_def)

lemma set_report_calls_consistent:
  "mode_consistent self \<Longrightarrow>
     snd (set_report_calls calls self) = None \<and> mode_consistent (fst (set_report_calls calls self))"
proof (induction calls arbitrary: self)
  case Nil
  then show ?case by simp
next
  case (Cons b calls)
  from setReportActualPosition_consistent [OF Cons.prems, of b]
  obtain self' where s: "setReportActualPosition b self = (self', None)" and c: "mode_consistent self'"
    by (cases "setReportActualPosition b self") auto
  from Cons.IH [OF c] s show ?case by simp
qed

text \<open>
  C9. After any sequence of calls of \<^verbatim>\<open>setReportActualPosition\<close> on the constructed
  object no call has raised, and the two position triggers are on one mode: with the flag
  down \<^verbatim>\<open>updateAxisPositions\<close> is connected to \<^verbatim>\<open>position\<close> and
  \<^verbatim>\<open>updateJointPositions\<close> to \<^verbatim>\<open>joint_position\<close>, with the flag up they are connected to
  \<^verbatim>\<open>actual_position\<close> and \<^verbatim>\<open>joint_actual_position\<close>, and never one to a commanded field
  while the other is connected to an actual field.
\<close>

theorem report_mode_switch_keeps_triggers_together:
  "snd (set_report_calls calls (Status_init st channel)) = None
   \<and> mode_consistent (fst (set_report_calls calls (Status_init st channel)))
   \<and> \<not> (0 < connected (fst (set_report_calls calls (Status_init st channel)))
                ''position'' ''updateAxisPositions''
          \<and> 0 < connected (fst (set_report_calls calls (Status_init st channel)))
                ''joint_actual_position'' ''updateJointPositions'')
   \<and> \<not> (0 < connected (fst (set_report_calls calls (Status_init st channel)))
                ''actual_position'' ''updateAxisPositions''
          \<and> 0 < connected (fst (set_report_calls calls (Status_init st channel)))
                ''joint_position'' ''updateJointPositions'')"
proof -
  let ?end = "fst (set_report_calls calls (Status_init st channel))"
  from set_report_calls_consistent [OF init_consistent, of calls st channel]
  have none: "snd (set_report_calls calls (Status_init st channel)) = None"
    and ok: "mode_consistent ?end"
    by simp_all
  from ok have "\<not> (0 < connected ?end ''position'' ''updateAxisPositions''
          \<and> 0 < connected ?end ''joint_actual_position'' ''updateJointPositions'')"
    and "\<not> (0 < connected ?end ''actual_position'' ''updateAxisPositions''
          \<and> 0 < connected ?end ''joint_position'' ''updateJointPositions'')"
    by (auto simp: mode_consistent_def split: if_splits)
  with none ok show ?thesis by simp
qed

theorem report_mode_switch_keeps_triggers_together_witness:
  "snd (set_report_calls [True, True, False, True]
      (Status_init (\<lparr>stat_dir = [], stat_attr = (\<lambda>name. 0), stat_joints = 0,
         stat_joint = []\<rparr> :: nat stat) [])) = None
   \<and> report_actual_position (fst (set_report_calls [True, True, False, True]
      (Status_init (\<lparr>stat_dir = [], stat_attr = (\<lambda>name. 0), stat_joints = 0,
         stat_joint = []\<rparr> :: nat stat) [])))
   \<and> connections (fst (set_report_calls [True, True, False, True]
      (Status_init (\<lparr>stat_dir = [], stat_attr = (\<lambda>name. 0), stat_joints = 0,
         stat_joint = []\<rparr> :: nat stat) [])))
     = [(''g5x_offset'', ''updateAxisPositions''),
        (''g92_offset'', ''updateAxisPositions''),
        (''tool_offset'', ''updateAxisPositions''),
        (''gcodes'', ''updateFormatedGcodes''),
        (''mcodes'', ''updateFormatedMcodes''),
        (''file'', ''updateFileLoaded''),
        (''timer.timeout'', ''_periodic''),
        (''actual_position'', ''updateAxisPositions''),
        (''joint_actual_position'', ''updateJointPositions'')]"
  using report_mode_switch_keeps_triggers_together
    [where calls = "[True, True, False, True]" and channel = "[]"
       and st = "\<lparr>stat_dir = [], stat_attr = (\<lambda>name. 0), stat_joints = 0,
         stat_joint = []\<rparr> :: nat stat"]
  by (simp add: Status_init_def setReportActualPosition_def swap_connections_def
        disconnect_def connect_def Let_def)

end
